theory Spec2Isabelle
  imports Complex_Main
begin

section \<open>JavaScript numbers\<close>

text \<open>
  The weather card computes with JavaScript numbers. A number is modelled as a real or one
  of the three special values of IEEE-754 arithmetic. Arithmetic on finite values is exact
  (no rounding, no overflow); the special values follow the IEEE rules that JavaScript
  uses. The model has a single zero, and a zero divisor acts as \<open>+0\<close>: every divisor of
  the code below that can be zero is the sum or difference of two non-zero values, which
  is \<open>+0\<close> in round-to-nearest arithmetic.
\<close>

datatype jsnum = Fin real | PInf | NInf | NaN

instantiation jsnum :: "{uminus, plus, minus, times, inverse}"
begin

fun uminus_jsnum :: "jsnum \<Rightarrow> jsnum" where
  "uminus_jsnum (Fin x) = Fin (- x)"
| "uminus_jsnum PInf = NInf"
| "uminus_jsnum NInf = PInf"
| "uminus_jsnum NaN = NaN"

fun plus_jsnum :: "jsnum \<Rightarrow> jsnum \<Rightarrow> jsnum" where
  "plus_jsnum (Fin x) (Fin y) = Fin (x + y)"
| "plus_jsnum NaN y = NaN"
| "plus_jsnum x NaN = NaN"
| "plus_jsnum PInf NInf = NaN"
| "plus_jsnum NInf PInf = NaN"
| "plus_jsnum PInf y = PInf"
| "plus_jsnum x PInf = PInf"
| "plus_jsnum NInf y = NInf"
| "plus_jsnum x NInf = NInf"

definition minus_jsnum :: "jsnum \<Rightarrow> jsnum \<Rightarrow> jsnum" where
  "minus_jsnum a b = a + (- b)"

fun times_jsnum :: "jsnum \<Rightarrow> jsnum \<Rightarrow> jsnum" where
  "times_jsnum (Fin x) (Fin y) = Fin (x * y)"
| "times_jsnum NaN y = NaN"
| "times_jsnum x NaN = NaN"
| "times_jsnum PInf (Fin y) = (if y = 0 then NaN else if 0 < y then PInf else NInf)"
| "times_jsnum NInf (Fin y) = (if y = 0 then NaN else if 0 < y then NInf else PInf)"
| "times_jsnum (Fin x) PInf = (if x = 0 then NaN else if 0 < x then PInf else NInf)"
| "times_jsnum (Fin x) NInf = (if x = 0 then NaN else if 0 < x then NInf else PInf)"
| "times_jsnum PInf PInf = PInf"
| "times_jsnum PInf NInf = NInf"
| "times_jsnum NInf PInf = NInf"
| "times_jsnum NInf NInf = PInf"

fun divide_jsnum :: "jsnum \<Rightarrow> jsnum \<Rightarrow> jsnum" where
  "divide_jsnum (Fin x) (Fin y) =
     (if y \<noteq> 0 then Fin (x / y) else if x = 0 then NaN else if 0 < x then PInf else NInf)"
| "divide_jsnum NaN y = NaN"
| "divide_jsnum x NaN = NaN"
| "divide_jsnum (Fin x) PInf = Fin 0"
| "divide_jsnum (Fin x) NInf = Fin 0"
| "divide_jsnum PInf (Fin y) = (if 0 \<le> y then PInf else NInf)"
| "divide_jsnum NInf (Fin y) = (if 0 \<le> y then NInf else PInf)"
| "divide_jsnum PInf y = NaN"
| "divide_jsnum NInf y = NaN"

definition inverse_jsnum :: "jsnum \<Rightarrow> jsnum" where
  "inverse_jsnum a = Fin 1 div a"

instance ..

end

text \<open>\<open>Math.exp\<close>, \<open>Math.log\<close>, \<open>Math.max\<close>, \<open>Math.min\<close> and \<open>Math.round\<close>.\<close>

fun Math_exp :: "jsnum \<Rightarrow> jsnum" where
  "Math_exp (Fin x) = Fin (exp x)"
| "Math_exp PInf = PInf"
| "Math_exp NInf = Fin 0"
| "Math_exp NaN = NaN"

fun Math_log :: "jsnum \<Rightarrow> jsnum" where
  "Math_log (Fin x) = (if 0 < x then Fin (ln x) else if x = 0 then NInf else NaN)"
| "Math_log PInf = PInf"
| "Math_log NInf = NaN"
| "Math_log NaN = NaN"

fun Math_max :: "jsnum \<Rightarrow> jsnum \<Rightarrow> jsnum" where
  "Math_max (Fin x) (Fin y) = Fin (max x y)"
| "Math_max NaN y = NaN"
| "Math_max x NaN = NaN"
| "Math_max PInf y = PInf"
| "Math_max x PInf = PInf"
| "Math_max NInf y = y"
| "Math_max x NInf = x"

fun Math_min :: "jsnum \<Rightarrow> jsnum \<Rightarrow> jsnum" where
  "Math_min (Fin x) (Fin y) = Fin (min x y)"
| "Math_min NaN y = NaN"
| "Math_min x NaN = NaN"
| "Math_min NInf y = NInf"
| "Math_min x NInf = NInf"
| "Math_min PInf y = y"
| "Math_min x PInf = x"

text \<open>\<open>Math.round\<close> rounds to the nearest integer, a tie going up.\<close>

definition round_half_up :: "real \<Rightarrow> real" where
  "round_half_up x = of_int \<lfloor>x + 1 / 2\<rfloor>"

fun Math_round :: "jsnum \<Rightarrow> jsnum" where
  "Math_round (Fin x) = Fin (round_half_up x)"
| "Math_round PInf = PInf"
| "Math_round NInf = NInf"
| "Math_round NaN = NaN"

text \<open>The comparison \<open>a <= b\<close> of JavaScript: false as soon as one side is \<open>NaN\<close>.\<close>

fun js_le :: "jsnum \<Rightarrow> jsnum \<Rightarrow> bool" where
  "js_le (Fin x) (Fin y) = (x \<le> y)"
| "js_le NaN y = False"
| "js_le x NaN = False"
| "js_le NInf y = True"
| "js_le x PInf = True"
| "js_le PInf y = False"
| "js_le x NInf = False"

section \<open>NASA POWER payloads and the sanitizer\<close>

text \<open>
  A POWER response carries, under \<open>properties.parameter\<close>, one JSON object per requested
  parameter, from time key to number. A series is that object as its entries in
  enumeration order; a value is \<open>None\<close> where the JSON has \<open>null\<close>. A parameter the
  response does not have is \<open>None\<close>.
\<close>

type_synonym series = "(string \<times> real option) list"

record power_param =
  T2M :: "series option"
  RH2M :: "series option"
  WS10M :: "series option"
  ALLSKY_SFC_UV_INDEX :: "series option"
  PRECTOTCORR :: "series option"
  T2M_MAX :: "series option"
  T2M_MIN :: "series option"

text \<open>\<open>param.X?.[key]\<close>: absent when the parameter, the key or the value is.\<close>

definition at_key :: "series option \<Rightarrow> string \<Rightarrow> real option" where
  "at_key s k = (case s of None \<Rightarrow> None
                 | Some es \<Rightarrow> (case map_of es k of None \<Rightarrow> None | Some v \<Rightarrow> v))"

text \<open>\<open>Object.keys(param.X || {})\<close>.\<close>

definition Object_keys :: "series option \<Rightarrow> string list" where
  "Object_keys s = (case s of None \<Rightarrow> [] | Some es \<Rightarrow> map fst es)"

text \<open>\<open>const isInvalidPowerValue = (v) => v === -999 || v === -5994\<close>, on a raw value that
  may be absent; strict equality with a number is false for an absent value.\<close>

definition isInvalidPowerValue :: "real option \<Rightarrow> bool" where
  "isInvalidPowerValue v = (v = Some (- 999) \<or> v = Some (- 5994))"

text \<open>The expression \<open>isInvalidPowerValue(raw) ? null : (raw ?? null)\<close> that \<open>getForecast\<close>
  applies to every raw POWER value.\<close>

definition sanitized :: "real option \<Rightarrow> real option" where
  "sanitized raw = (if isInvalidPowerValue raw then None else raw)"

record hourly_entry =
  tempC :: "real option"
  humidityPct :: "real option"
  windMs :: "real option"
  precipMm :: "real option"
  uvIndex :: "real option"

text \<open>The body of \<open>times.map((key) => ...)\<close> in \<open>getForecast\<close>, without the timestamp.\<close>

definition phEntry :: "power_param \<Rightarrow> string \<Rightarrow> hourly_entry" where
  "phEntry phParam key =
     (let windMsRaw = at_key (WS10M phParam) key;
          windMs0 = sanitized windMsRaw;
          tRaw = at_key (T2M phParam) key;
          rhRaw = at_key (RH2M phParam) key;
          pRaw = at_key (PRECTOTCORR phParam) key;
          uvRaw = at_key (ALLSKY_SFC_UV_INDEX phParam) key
      in \<lparr> tempC = sanitized tRaw,
           humidityPct = sanitized rhRaw,
           windMs = (if windMs0 \<noteq> None then windMs0 else None),
           precipMm = sanitized pRaw,
           uvIndex = sanitized uvRaw \<rparr>)"

section \<open>The local comfort-risk computation\<close>

text \<open>
  The values the provider sends are finite, and so are their sums, their means and the
  wind chill; these are computed on the reals. The humidex and everything after it can
  leave the finite numbers and is computed on \<open>jsnum\<close>.
\<close>

text \<open>
  A risk index and the result that carries four of them. The local computation stores
  numbers as centres and a string as date; the share link stores whatever values its
  payload holds, so the types of both are parameters.
\<close>

record 'c risk_index =
  center :: 'c
  low :: jsnum
  high :: jsnum

record 'c indices =
  heat :: "'c risk_index"
  cold :: "'c risk_index"
  wind :: "'c risk_index"
  wet :: "'c risk_index"

record ('c, 'd) risk_result =
  source :: string
  date :: 'd
  indices :: "'c indices"

text \<open>\<open>const clamp = (v, min, max) => Math.max(min, Math.min(max, v))\<close>.\<close>

definition clamp :: "jsnum \<Rightarrow> jsnum \<Rightarrow> jsnum \<Rightarrow> jsnum" where
  "clamp v mn mx = Math_max mn (Math_min mx v)"

text \<open>\<open>xs.filter((v) => v != null)\<close>.\<close>

primrec non_null :: "'a option list \<Rightarrow> 'a list" where
  "non_null [] = []"
| "non_null (v # vs) = (case v of None \<Rightarrow> non_null vs | Some x \<Rightarrow> x # non_null vs)"

text \<open>\<open>xs.reduce((a,b)=>a+b,0)/xs.length\<close>.\<close>

definition mean :: "real list \<Rightarrow> real" where
  "mean xs = foldl (+) 0 xs / real (length xs)"

definition tmean_of :: "real list \<Rightarrow> real option \<Rightarrow> real option \<Rightarrow> real option" where
  "tmean_of temps tmax tmin =
     (if length temps \<noteq> 0 then Some (mean temps)
      else (case (tmax, tmin) of (Some a, Some b) \<Rightarrow> Some ((a + b) / 2) | _ \<Rightarrow> None))"

definition windMs_of :: "real list \<Rightarrow> real" where
  "windMs_of winds = (if length winds \<noteq> 0 then mean winds else 3.5)"

text \<open>The humidex approximation: dew point by the Magnus formula, then the vapour
  pressure. \<open>Math.log\<close> of a humidity that is not positive, and a zero divisor, give the
  special values of the arithmetic.\<close>

definition humidex :: "real option \<Rightarrow> real option \<Rightarrow> jsnum option" where
  "humidex tmean rh =
     (case (tmean, rh) of
        (Some t, Some r) \<Rightarrow>
          (let a = Fin 17.27; b = Fin 237.7;
               alpha = ((a * Fin t) / (b + Fin t)) + Math_log (Fin r / Fin 100);
               dew = (b * alpha) / (a - alpha);
               e = Fin 6.11 * Math_exp (Fin 5417.7530 *
                     ((Fin 1 / Fin 273.16) - (Fin 1 / (Fin 273.15 + dew))))
           in Some (Fin t + (Fin 5 / Fin 9) * (e - Fin 10)))
      | _ \<Rightarrow> None)"

text \<open>Wind chill: the formula below 10 degrees with wind above 4.8 km/h, the temperature
  itself otherwise. The base of \<open>Math.pow\<close> is positive where it is evaluated.\<close>

definition windChill :: "real option \<Rightarrow> real \<Rightarrow> real option" where
  "windChill tmean windMs' =
     (case tmean of
        None \<Rightarrow> None
      | Some t \<Rightarrow>
          (let windKmh = windMs' * 3.6
           in if t > 10 \<or> windKmh \<le> 4.8 then Some t
              else Some (13.12 + 0.6215 * t - 11.37 * (windKmh powr 0.16)
                         + 0.3965 * t * (windKmh powr 0.16))))"

definition heatCenter :: "jsnum option \<Rightarrow> jsnum" where
  "heatCenter hx =
     (case hx of None \<Rightarrow> Fin 0
      | Some h \<Rightarrow> Fin 100 / (Fin 1 + Math_exp ((- (h - Fin 35)) / Fin 2.5)))"

definition coldMetric :: "real option \<Rightarrow> real" where
  "coldMetric wc = (case wc of None \<Rightarrow> 20 | Some c \<Rightarrow> 5 - c)"

definition coldCenter :: "real \<Rightarrow> jsnum" where
  "coldCenter cm = Fin 100 / (Fin 1 + Math_exp ((- (Fin cm - Fin 0)) / Fin 2.5))"

definition windCenter :: "real \<Rightarrow> jsnum" where
  "windCenter w = Fin 100 / (Fin 1 + Math_exp ((- (Fin w - Fin 10)) / Fin 1.5))"

definition wetCenter :: "real option \<Rightarrow> jsnum" where
  "wetCenter prec =
     (case prec of None \<Rightarrow> Fin 0
      | Some p \<Rightarrow> Fin 100 / (Fin 1 + Math_exp ((- (Fin p - Fin 2)) / Fin 2)))"

text \<open>The three fields every hazard gets from its centre: the band is ten points either
  side, clamped, and each field is rounded.\<close>

definition banded :: "jsnum \<Rightarrow> jsnum risk_index" where
  "banded c = \<lparr> center = Math_round c,
                low = Math_round (clamp (c - Fin 10) (Fin 0) (Fin 100)),
                high = Math_round (clamp (c + Fin 10) (Fin 0) (Fin 100)) \<rparr>"

text \<open>\<open>computeLocalRiskFallback\<close>, from the parameters of the daily response \<open>p\<close> and of
  the hourly response \<open>phParam\<close> that its two fetches returned. The key is the date
  without its dashes; the temperatures and winds are the values that are not null at the
  keys of the hourly temperatures.\<close>

definition startKey_of :: "string \<Rightarrow> string" where
  "startKey_of isoDate = filter (\<lambda>ch. ch \<noteq> CHR ''-'') isoDate"

definition local_temps :: "power_param \<Rightarrow> real list" where
  "local_temps phParam = non_null (map (at_key (T2M phParam)) (Object_keys (T2M phParam)))"

definition local_winds :: "power_param \<Rightarrow> real list" where
  "local_winds phParam = non_null (map (at_key (WS10M phParam)) (Object_keys (T2M phParam)))"

definition local_tmean :: "power_param \<Rightarrow> power_param \<Rightarrow> string \<Rightarrow> real option" where
  "local_tmean p phParam isoDate =
     tmean_of (local_temps phParam) (at_key (T2M_MAX p) (startKey_of isoDate))
       (at_key (T2M_MIN p) (startKey_of isoDate))"

definition computeLocalRiskFallback ::
  "power_param \<Rightarrow> power_param \<Rightarrow> string \<Rightarrow> (jsnum, string) risk_result" where
  "computeLocalRiskFallback p phParam isoDate =
     (let startKey = startKey_of isoDate;
          rh = at_key (RH2M p) startKey;
          prec = at_key (PRECTOTCORR p) startKey;
          tmean = local_tmean p phParam isoDate;
          windMs' = windMs_of (local_winds phParam)
      in \<lparr> source = ''POWER fallback'',
           date = isoDate,
           indices =
             \<lparr> heat = banded (heatCenter (humidex tmean rh)),
               cold = banded (coldCenter (coldMetric (windChill tmean windMs'))),
               wind = banded (windCenter windMs'),
               wet = banded (wetCenter prec) \<rparr> \<rparr>)"

section \<open>Merging live and reanalysis values in \<open>getForecast\<close>\<close>

text \<open>The \<open>current\<close> object of an OpenWeather OneCall response.\<close>

record ow_current =
  temp :: "real option"
  humidity :: "real option"
  wind_speed :: "real option"
  uvi :: "real option"

text \<open>What \<open>fetchWeather\<close> returns; it sets these three fields and no other, so the
  alternative names \<open>getForecast\<close> also tries (\<open>temp_c\<close>, \<open>temperature\<close>,
  \<open>humidity\<close>) are always absent.\<close>

record weather =
  temperature_c :: "real option"
  humidity_pct :: "real option"
  wind_ms :: "real option"

text \<open>An awaited promise either rejects or resolves.\<close>

datatype 'a settled = Rejected | Resolved 'a

text \<open>\<open>fetchWeather\<close>: the OpenWeather current weather when that call resolved, else the
  first hour of the POWER hourly response, sanitized.\<close>

definition fetchWeather :: "weather settled \<Rightarrow> power_param \<Rightarrow> weather" where
  "fetchWeather ow param =
     (case ow of
        Resolved w \<Rightarrow> w
      | Rejected \<Rightarrow>
          (let times = Object_keys (T2M param)
           in if length times = 0
              then \<lparr> temperature_c = None, humidity_pct = None, wind_ms = None \<rparr>
              else (let key = hd times
                    in \<lparr> temperature_c = sanitized (at_key (T2M param) key),
                         humidity_pct = sanitized (at_key (RH2M param) key),
                         wind_ms = sanitized (at_key (WS10M param) key) \<rparr>)))"

text \<open>\<open>next12[0]?.field\<close>.\<close>

definition first_of :: "hourly_entry list \<Rightarrow> (hourly_entry \<Rightarrow> real option) \<Rightarrow> real option" where
  "first_of next12 field = (case next12 of [] \<Rightarrow> None | e # es \<Rightarrow> field e)"

text \<open>\<open>owCurrent?.field\<close>.\<close>

definition of_current :: "ow_current option \<Rightarrow> (ow_current \<Rightarrow> real option) \<Rightarrow> real option" where
  "of_current owCurrent field = (case owCurrent of None \<Rightarrow> None | Some c \<Rightarrow> field c)"

definition of_oe :: "weather option \<Rightarrow> (weather \<Rightarrow> real option) \<Rightarrow> real option" where
  "of_oe oe field = (case oe of None \<Rightarrow> None | Some w \<Rightarrow> field w)"

text \<open>The four merged fields, each a chain of \<open>!= null\<close> tests: the OneCall value, then
  the value of \<open>fetchWeather\<close>, then the POWER value.\<close>

definition merged_tempC :: "ow_current option \<Rightarrow> weather option \<Rightarrow> hourly_entry list \<Rightarrow> real option" where
  "merged_tempC owCurrent oe next12 =
     (case of_current owCurrent temp of
        Some v \<Rightarrow> Some (round_half_up v)
      | None \<Rightarrow>
          (case of_oe oe temperature_c of
             Some v \<Rightarrow> Some (round_half_up v)
           | None \<Rightarrow>
               (case first_of next12 tempC of
                  Some v \<Rightarrow> Some (round_half_up v)
                | None \<Rightarrow> None)))"

definition merged_humidityPct :: "ow_current option \<Rightarrow> weather option \<Rightarrow> hourly_entry list \<Rightarrow> real option" where
  "merged_humidityPct owCurrent oe next12 =
     (case of_current owCurrent humidity of
        Some v \<Rightarrow> Some (round_half_up v)
      | None \<Rightarrow>
          (case of_oe oe humidity_pct of
             Some v \<Rightarrow> Some (round_half_up v)
           | None \<Rightarrow>
               (case first_of next12 humidityPct of
                  Some v \<Rightarrow> Some (round_half_up v)
                | None \<Rightarrow> None)))"

definition merged_windMs :: "ow_current option \<Rightarrow> weather option \<Rightarrow> hourly_entry list \<Rightarrow> real option" where
  "merged_windMs owCurrent oe next12 =
     (case of_current owCurrent wind_speed of
        Some v \<Rightarrow> Some v
      | None \<Rightarrow>
          (case of_oe oe wind_ms of
             Some v \<Rightarrow> Some v
           | None \<Rightarrow>
               (case first_of next12 windMs of
                  Some v \<Rightarrow> Some v
                | None \<Rightarrow> None)))"

text \<open>\<open>oeUv\<close> is the OneCall current value, else the first daily value of OneCall.\<close>

definition oeUv :: "ow_current option \<Rightarrow> real option \<Rightarrow> real option" where
  "oeUv owCurrent daily0_uvi =
     (case of_current owCurrent uvi of Some v \<Rightarrow> Some v | None \<Rightarrow> daily0_uvi)"

definition merged_uvIndex ::
  "ow_current option \<Rightarrow> real option \<Rightarrow> real option \<Rightarrow> hourly_entry list \<Rightarrow> real option" where
  "merged_uvIndex owCurrent daily0_uvi uvDaily next12 =
     (case of_current owCurrent uvi of
        Some v \<Rightarrow> Some (round_half_up v)
      | None \<Rightarrow>
          (case oeUv owCurrent daily0_uvi of
             Some v \<Rightarrow> Some (round_half_up v)
           | None \<Rightarrow>
               (case uvDaily of
                  Some v \<Rightarrow> Some (round_half_up v)
                | None \<Rightarrow>
                    (case first_of next12 uvIndex of
                       Some v \<Rightarrow> Some (round_half_up v)
                     | None \<Rightarrow> None))))"

section \<open>The synthetic POWER data\<close>

text \<open>
  \<open>Math.random()\<close> is the one source of values that is not an argument. The generator is
  modelled as the sequence of values its successive calls return; a call takes the head
  and leaves the rest.
\<close>

type_synonym rng = "nat \<Rightarrow> real"

definition Math_random :: "rng \<Rightarrow> real \<times> rng" where
  "Math_random g = (g 0, \<lambda>n. g (Suc n))"

text \<open>\<open>obj[key] = v\<close> on one parameter object.\<close>

definition put_key :: "series option \<Rightarrow> string \<Rightarrow> real \<Rightarrow> series option" where
  "put_key s k v =
     (let es = (case s of None \<Rightarrow> [] | Some es \<Rightarrow> es)
      in Some (if k \<in> set (map fst es)
               then map (\<lambda>e. if fst e = k then (k, Some v) else e) es
               else es @ [(k, Some v)]))"

text \<open>\<open>String(n)\<close> for a natural number and \<open>padStart\<close>.\<close>

definition digit_char :: "nat \<Rightarrow> char" where
  "digit_char d = char_of (48 + d)"

fun String_nat :: "nat \<Rightarrow> string" where
  "String_nat n = (if n < 10 then [digit_char n] else String_nat (n div 10) @ [digit_char (n mod 10)])"

declare String_nat.simps [simp del]

definition padStart :: "string \<Rightarrow> nat \<Rightarrow> char \<Rightarrow> string" where
  "padStart s n c = replicate (n - length s) c @ s"

text \<open>The key of an hour, \<open>`${startDate}${String(hour).padStart(2, '0')}`\<close>.\<close>

definition timeKey :: "string \<Rightarrow> nat \<Rightarrow> string" where
  "timeKey startDate hour = startDate @ padStart (String_nat hour) 2 (CHR ''0'')"

text \<open>One turn of the loop \<open>for (let hour = 0; hour < 24; hour++)\<close>.\<close>

definition mock_hour :: "string \<Rightarrow> real \<Rightarrow> real \<Rightarrow> power_param \<times> rng \<Rightarrow> nat \<Rightarrow> power_param \<times> rng" where
  "mock_hour startDate lat lon st hour =
     (let m = fst st; g = snd st;
          key = timeKey startDate hour;
          m1 = m\<lparr> T2M := put_key (T2M m) key (20 + sin (real hour * 0.3) * 8 + (lat * 0.1)) \<rparr>;
          m2 = m1\<lparr> RH2M := put_key (RH2M m1) key (50 + cos (real hour * 0.2) * 20 + (lon * 0.1)) \<rparr>;
          r1 = Math_random g;
          m3 = m2\<lparr> WS10M := put_key (WS10M m2) key (3 + fst r1 * 5) \<rparr>;
          m4 = m3\<lparr> ALLSKY_SFC_UV_INDEX :=
                     put_key (ALLSKY_SFC_UV_INDEX m3) key (max 0 (sin (real hour * 0.2) * 6)) \<rparr>;
          r2 = Math_random (snd r1);
          m5 = m4\<lparr> PRECTOTCORR := put_key (PRECTOTCORR m4) key (fst r2 * 2) \<rparr>
      in (m5, snd r2))"

definition mockData0 :: power_param where
  "mockData0 = \<lparr> T2M = Some [], RH2M = Some [], WS10M = Some [], ALLSKY_SFC_UV_INDEX = Some [],
                 PRECTOTCORR = Some [], T2M_MAX = None, T2M_MIN = None \<rparr>"

definition generateMockPowerData :: "string \<Rightarrow> real \<Rightarrow> real \<Rightarrow> rng \<Rightarrow> power_param \<times> rng" where
  "generateMockPowerData startDate lat lon g =
     foldl (mock_hour startDate lat lon) (mockData0, g) [0..<24]"

text \<open>What the \<open>fetch\<close> inside \<open>fetchPowerHourly\<close> can do: throw, answer with a status that
  is not ok, answer with a body that is not JSON, or deliver the parameters.\<close>

datatype power_fetch = NetworkError | NotOk nat | BadBody | Body power_param

text \<open>\<open>fetchPowerHourly\<close>; the URL depends on the arguments, the result on what the fetch
  did. Every failure ends in the synthetic data.\<close>

definition fetchPowerHourly ::
  "power_fetch \<Rightarrow> real \<Rightarrow> real \<Rightarrow> string \<Rightarrow> string \<Rightarrow> rng \<Rightarrow> power_param \<times> rng" where
  "fetchPowerHourly res lat lon startDate endDate g =
     (case res of
        Body d \<Rightarrow> (d, g)
      | _ \<Rightarrow> generateMockPowerData startDate lat lon g)"

section \<open>The share link\<close>

text \<open>
  \<open>shareRisk\<close> writes the date and the four centres into the fragment of a link, as
  \<open>btoa(JSON.stringify(payload))\<close>; \<open>parseHash\<close> reads them back with
  \<open>JSON.parse(atob(enc))\<close>. Strings are lists of 8-bit characters, the strings \<open>btoa\<close>
  accepts. A value of the payload is a scalar; a payload that nests arrays or objects is
  outside this model, and the parser below answers \<open>None\<close> for it as it does for text
  that is not JSON.
\<close>

datatype jsval = JUndefined | JNull | JBool bool | JNum jsnum | JStr string

definition dquote :: char where
  "dquote = CHR 0x22"

definition backslash :: char where
  "backslash = CHR 0x5C"

subsection \<open>\<open>JSON.stringify\<close>\<close>

definition hex_digit :: "nat \<Rightarrow> char" where
  "hex_digit d = (if d < 10 then char_of (48 + d) else char_of (87 + d))"

definition quote_char :: "char \<Rightarrow> string" where
  "quote_char c =
     (let n = (of_char c :: nat)
      in if c = dquote then [backslash, dquote]
         else if c = backslash then [backslash, backslash]
         else if n = 8 then [backslash, CHR ''b'']
         else if n = 9 then [backslash, CHR ''t'']
         else if n = 10 then [backslash, CHR ''n'']
         else if n = 12 then [backslash, CHR ''f'']
         else if n = 13 then [backslash, CHR ''r'']
         else if n < 32 then [backslash, CHR ''u'', CHR ''0'', CHR ''0'',
                              hex_digit (n div 16), hex_digit (n mod 16)]
         else [c])"

definition QuoteJSONString :: "string \<Rightarrow> string" where
  "QuoteJSONString s = dquote # concat (map quote_char s) @ [dquote]"

definition String_int :: "int \<Rightarrow> string" where
  "String_int i = (if i < 0 then CHR ''-'' # String_nat (nat (- i)) else String_nat (nat i))"

text \<open>A number that is not finite is written \<open>null\<close>. An integer below \<open>10^21\<close> in size
  is written in decimal digits; the digits of any other finite number depend on its
  binary representation, and the model has no text for them (\<open>None\<close>).\<close>

definition stringify_number :: "jsnum \<Rightarrow> string option" where
  "stringify_number n =
     (case n of
        Fin x \<Rightarrow> (if x = of_int \<lfloor>x\<rfloor> \<and> \<bar>x\<bar> < 10 ^ 21 then Some (String_int \<lfloor>x\<rfloor>) else None)
      | _ \<Rightarrow> Some ''null'')"

fun stringify_value :: "jsval \<Rightarrow> string option" where
  "stringify_value JUndefined = None"
| "stringify_value JNull = Some ''null''"
| "stringify_value (JBool b) = Some (if b then ''true'' else ''false'')"
| "stringify_value (JNum n) = stringify_number n"
| "stringify_value (JStr s) = Some (QuoteJSONString s)"

text \<open>The members of an object in order; a property whose value is \<open>undefined\<close> is left
  out.\<close>

fun stringify_members :: "(string \<times> jsval) list \<Rightarrow> string list option" where
  "stringify_members [] = Some []"
| "stringify_members ((k, v) # kvs) =
     (if v = JUndefined then stringify_members kvs
      else (case (stringify_value v, stringify_members kvs) of
              (Some sv, Some ms) \<Rightarrow> Some ((QuoteJSONString k @ '':'' @ sv) # ms)
            | _ \<Rightarrow> None))"

fun join_comma :: "string list \<Rightarrow> string" where
  "join_comma [] = []"
| "join_comma [m] = m"
| "join_comma (m # ms) = m @ '','' @ join_comma ms"

definition JSON_stringify :: "(string \<times> jsval) list \<Rightarrow> string option" where
  "JSON_stringify obj = map_option (\<lambda>ms. ''{'' @ join_comma ms @ ''}'') (stringify_members obj)"

subsection \<open>\<open>btoa\<close> and \<open>atob\<close>\<close>

definition b64chars :: string where
  "b64chars = ''ABCDEFGHIJKLMNOPQRSTUVWXYZabcdefghijklmnopqrstuvwxyz0123456789+/''"

text \<open>Only applied to six-bit values.\<close>

definition enc6 :: "nat \<Rightarrow> char" where
  "enc6 n = b64chars ! n"

fun index_of :: "'a \<Rightarrow> 'a list \<Rightarrow> nat option" where
  "index_of x [] = None"
| "index_of x (y # ys) = (if x = y then Some 0 else map_option Suc (index_of x ys))"

definition dec6 :: "char \<Rightarrow> nat option" where
  "dec6 c = index_of c b64chars"

fun encode_bytes :: "nat list \<Rightarrow> string" where
  "encode_bytes [] = []"
| "encode_bytes [a] = [enc6 (a div 4), enc6 ((a mod 4) * 16), CHR ''='', CHR ''='']"
| "encode_bytes [a, b] =
     [enc6 (a div 4), enc6 ((a mod 4) * 16 + b div 16), enc6 ((b mod 16) * 4), CHR ''='']"
| "encode_bytes (a # b # c # bs) =
     [enc6 (a div 4), enc6 ((a mod 4) * 16 + b div 16), enc6 ((b mod 16) * 4 + c div 64),
      enc6 (c mod 64)] @ encode_bytes bs"

text \<open>The six-bit groups of a byte sequence, without the padding.\<close>

fun sextets :: "nat list \<Rightarrow> nat list" where
  "sextets [] = []"
| "sextets [a] = [a div 4, (a mod 4) * 16]"
| "sextets [a, b] = [a div 4, (a mod 4) * 16 + b div 16, (b mod 16) * 4]"
| "sextets (a # b # c # bs) =
     [a div 4, (a mod 4) * 16 + b div 16, (b mod 16) * 4 + c div 64, c mod 64] @ sextets bs"

text \<open>\<open>btoa\<close> throws for a character above \<open>U+00FF\<close>; the strings of this model have
  none.\<close>

definition btoa :: "string \<Rightarrow> string" where
  "btoa s = encode_bytes (map of_char s)"

text \<open>\<open>atob\<close> is the forgiving decoder: it drops ASCII whitespace, removes one or two
  padding characters from text whose length is a multiple of four, refuses a length that
  leaves remainder one and any character outside the alphabet, and discards the bits
  that do not fill a byte. \<open>None\<close> is the exception it throws.\<close>

definition is_ascii_ws :: "char \<Rightarrow> bool" where
  "is_ascii_ws c = (c = CHR 0x09 \<or> c = CHR 0x0A \<or> c = CHR 0x0C \<or> c = CHR 0x0D \<or> c = CHR 0x20)"

definition strip_padding :: "string \<Rightarrow> string" where
  "strip_padding s =
     (if length s mod 4 = 0
      then (case rev s of
              e1 # e2 # r \<Rightarrow>
                (if e1 = CHR ''='' \<and> e2 = CHR ''='' then rev r
                 else if e1 = CHR ''='' then rev (e2 # r) else s)
            | _ \<Rightarrow> s)
      else s)"

fun those_opt :: "'a option list \<Rightarrow> 'a list option" where
  "those_opt [] = Some []"
| "those_opt (x # xs) =
     (case x of None \<Rightarrow> None
      | Some y \<Rightarrow> (case those_opt xs of None \<Rightarrow> None | Some ys \<Rightarrow> Some (y # ys)))"

fun decode_sextets :: "nat list \<Rightarrow> nat list" where
  "decode_sextets (s1 # s2 # s3 # s4 # ss) =
     [s1 * 4 + s2 div 16, (s2 mod 16) * 16 + s3 div 4, (s3 mod 4) * 64 + s4] @ decode_sextets ss"
| "decode_sextets [s1, s2, s3] = [s1 * 4 + s2 div 16, (s2 mod 16) * 16 + s3 div 4]"
| "decode_sextets [s1, s2] = [s1 * 4 + s2 div 16]"
| "decode_sextets ss = []"

definition atob :: "string \<Rightarrow> string option" where
  "atob s =
     (let d = strip_padding (filter (\<lambda>c. \<not> is_ascii_ws c) s)
      in if length d mod 4 = 1 then None
         else (case those_opt (map dec6 d) of
                 None \<Rightarrow> None
               | Some ss \<Rightarrow> Some (map char_of (decode_sextets ss))))"

subsection \<open>\<open>JSON.parse\<close>\<close>

definition is_ws :: "char \<Rightarrow> bool" where
  "is_ws c = (c = CHR 0x20 \<or> c = CHR 0x09 \<or> c = CHR 0x0A \<or> c = CHR 0x0D)"

definition skip_ws :: "string \<Rightarrow> string" where
  "skip_ws s = dropWhile is_ws s"

definition is_digit :: "char \<Rightarrow> bool" where
  "is_digit c = (48 \<le> (of_char c :: nat) \<and> (of_char c :: nat) \<le> 57)"

definition digit_val :: "char \<Rightarrow> nat" where
  "digit_val c = of_char c - 48"

definition nat_of_digits :: "string \<Rightarrow> nat" where
  "nat_of_digits ds = foldl (\<lambda>a c. 10 * a + digit_val c) 0 ds"

definition hex_val :: "char \<Rightarrow> nat option" where
  "hex_val c =
     (let n = (of_char c :: nat)
      in if 48 \<le> n \<and> n \<le> 57 then Some (n - 48)
         else if 97 \<le> n \<and> n \<le> 102 then Some (n - 87)
         else if 65 \<le> n \<and> n \<le> 70 then Some (n - 55)
         else None)"

definition unescape :: "char \<Rightarrow> char option" where
  "unescape e =
     (if e = dquote then Some dquote
      else if e = backslash then Some backslash
      else if e = CHR ''/'' then Some (CHR ''/'')
      else if e = CHR ''b'' then Some (CHR 0x08)
      else if e = CHR ''f'' then Some (CHR 0x0C)
      else if e = CHR ''n'' then Some (CHR 0x0A)
      else if e = CHR ''r'' then Some (CHR 0x0D)
      else if e = CHR ''t'' then Some (CHR 0x09)
      else None)"

definition consing :: "char \<Rightarrow> (string \<times> string) option \<Rightarrow> (string \<times> string) option" where
  "consing c r = (case r of None \<Rightarrow> None | Some (t, rest) \<Rightarrow> Some (c # t, rest))"

text \<open>The characters of a string after its opening quote, up to the closing quote. An
  escape \<open>\uXXXX\<close> above \<open>00FF\<close> names a character the strings of this model do not
  have.\<close>

fun string_body :: "string \<Rightarrow> (string \<times> string) option" where
  "string_body [] = None"
| "string_body (c # cs) =
     (if c = dquote then Some ([], cs)
      else if c = backslash then
        (case cs of
           [] \<Rightarrow> None
         | e # r \<Rightarrow>
             (if e = CHR ''u'' then
                (case r of
                   h1 # h2 # h3 # h4 # r' \<Rightarrow>
                     (case (hex_val h1, hex_val h2, hex_val h3, hex_val h4) of
                        (Some a, Some b, Some c', Some d) \<Rightarrow>
                          (let code = ((a * 16 + b) * 16 + c') * 16 + d
                           in if code < 256 then consing (char_of code) (string_body r')
                              else None)
                      | _ \<Rightarrow> None)
                 | _ \<Rightarrow> None)
              else (case unescape e of
                      None \<Rightarrow> None
                    | Some ch \<Rightarrow> consing ch (string_body r))))
      else if (of_char c :: nat) < 32 then None
      else consing c (string_body cs))"

definition frac_part :: "string \<Rightarrow> (string \<times> string) option" where
  "frac_part s =
     (case s of
        [] \<Rightarrow> Some ([], s)
      | c # r \<Rightarrow>
          (if c = CHR ''.''
           then (let fd = takeWhile is_digit r
                 in if fd = [] then None else Some (fd, dropWhile is_digit r))
           else Some ([], s)))"

definition exp_part :: "string \<Rightarrow> (int \<times> string) option" where
  "exp_part s =
     (case s of
        [] \<Rightarrow> Some (0, s)
      | c # r \<Rightarrow>
          (if c = CHR ''e'' \<or> c = CHR ''E''
           then (let neg = (case r of [] \<Rightarrow> False | x # r' \<Rightarrow> x = CHR ''-'');
                     signed = (case r of [] \<Rightarrow> False | x # r' \<Rightarrow> x = CHR ''-'' \<or> x = CHR ''+'');
                     r1 = (if signed then tl r else r);
                     ed = takeWhile is_digit r1
                 in if ed = [] then None
                    else Some ((if neg then - 1 else 1) * int (nat_of_digits ed),
                               dropWhile is_digit r1))
           else Some (0, s)))"

definition pow10 :: "int \<Rightarrow> real" where
  "pow10 e = (if 0 \<le> e then 10 ^ nat e else 1 / 10 ^ nat (- e))"

text \<open>A JSON number, with its exact decimal value.\<close>

definition parse_number :: "string \<Rightarrow> (real \<times> string) option" where
  "parse_number s =
     (let neg = (case s of [] \<Rightarrow> False | c # r \<Rightarrow> c = CHR ''-'');
          s1 = (if neg then tl s else s);
          ip = takeWhile is_digit s1;
          s2 = dropWhile is_digit s1
      in if ip = [] \<or> (hd ip = CHR ''0'' \<and> 1 < length ip) then None
         else (case frac_part s2 of
                 None \<Rightarrow> None
               | Some (fd, s3) \<Rightarrow>
                   (case exp_part s3 of
                      None \<Rightarrow> None
                    | Some (ex, s4) \<Rightarrow>
                        Some ((if neg then - 1 else 1)
                              * (real (nat_of_digits ip) + real (nat_of_digits fd) / 10 ^ length fd)
                              * pow10 ex, s4))))"

definition parse_scalar :: "string \<Rightarrow> (jsval \<times> string) option" where
  "parse_scalar s =
     (case s of
        [] \<Rightarrow> None
      | c # r \<Rightarrow>
          (if c = dquote then
             (case string_body r of None \<Rightarrow> None | Some (t, rest) \<Rightarrow> Some (JStr t, rest))
           else if take 4 s = ''true'' then Some (JBool True, drop 4 s)
           else if take 5 s = ''false'' then Some (JBool False, drop 5 s)
           else if take 4 s = ''null'' then Some (JNull, drop 4 s)
           else (case parse_number s of
                   None \<Rightarrow> None
                 | Some (x, rest) \<Rightarrow> Some (JNum (Fin x), rest))))"

text \<open>The members of an object, from the first name to the closing brace. The first
  argument bounds the number of members; the text has fewer members than characters.\<close>

fun parse_members :: "nat \<Rightarrow> string \<Rightarrow> ((string \<times> jsval) list \<times> string) option" where
  "parse_members 0 s = None"
| "parse_members (Suc n) s =
     (case skip_ws s of
        [] \<Rightarrow> None
      | c # r \<Rightarrow>
          (if c \<noteq> dquote then None
           else (case string_body r of
                   None \<Rightarrow> None
                 | Some (k, r1) \<Rightarrow>
                     (case skip_ws r1 of
                        [] \<Rightarrow> None
                      | c1 # r2 \<Rightarrow>
                          (if c1 \<noteq> CHR '':'' then None
                           else (case parse_scalar (skip_ws r2) of
                                   None \<Rightarrow> None
                                 | Some (v, r3) \<Rightarrow>
                                     (case skip_ws r3 of
                                        [] \<Rightarrow> None
                                      | c2 # r4 \<Rightarrow>
                                          (if c2 = CHR '',''
                                           then (case parse_members n r4 of
                                                   None \<Rightarrow> None
                                                 | Some (ms, rest) \<Rightarrow> Some ((k, v) # ms, rest))
                                           else if c2 = CHR ''}'' then Some ([(k, v)], r4)
                                           else None))))))))"

datatype json_top = Scalar jsval | Object "(string \<times> jsval) list"

definition JSON_parse :: "string \<Rightarrow> json_top option" where
  "JSON_parse txt =
     (case skip_ws txt of
        [] \<Rightarrow> None
      | c # r \<Rightarrow>
          (if c = CHR ''{''
           then (case (case skip_ws r of
                         [] \<Rightarrow> None
                       | c' # r' \<Rightarrow> (if c' = CHR ''}'' then Some ([], r')
                                      else parse_members (length r) r)) of
                   None \<Rightarrow> None
                 | Some (ms, rest) \<Rightarrow> (if skip_ws rest = [] then Some (Object ms) else None))
           else (case parse_scalar (c # r) of
                   None \<Rightarrow> None
                 | Some (v, rest) \<Rightarrow> (if skip_ws rest = [] then Some (Scalar v) else None))))"

subsection \<open>\<open>shareRisk\<close> and \<open>parseHash\<close>\<close>

definition marker :: string where
  "marker = ''#comfort=''"

text \<open>The payload \<open>shareRisk\<close> builds, and the fragment of the link it copies: \<open>None\<close>
  where a centre has no text in this model.\<close>

definition share_payload :: "string \<Rightarrow> (jsnum, 'd) risk_result \<Rightarrow> (string \<times> jsval) list" where
  "share_payload dateISO riskResult =
     [(''d'', JStr dateISO),
      (''h'', JNum (center (heat (indices riskResult)))),
      (''c'', JNum (center (cold (indices riskResult)))),
      (''w'', JNum (center (wind (indices riskResult)))),
      (''r'', JNum (center (wet (indices riskResult))))]"

definition shareRisk :: "string \<Rightarrow> (jsnum, 'd) risk_result \<Rightarrow> string option" where
  "shareRisk dateISO riskResult =
     map_option (\<lambda>json. marker @ btoa json) (JSON_stringify (share_payload dateISO riskResult))"

text \<open>\<open>hash.indexOf(marker)\<close>.\<close>

fun indexOf :: "string \<Rightarrow> string \<Rightarrow> nat option" where
  "indexOf [] m = (if m = [] then Some 0 else None)"
| "indexOf (c # cs) m =
     (if take (length m) (c # cs) = m then Some 0 else map_option Suc (indexOf cs m))"

text \<open>\<open>payload.k\<close>: the last member of that name, \<open>undefined\<close> without one.\<close>

definition get_prop :: "(string \<times> jsval) list \<Rightarrow> string \<Rightarrow> jsval" where
  "get_prop payload k = (case map_of (rev payload) k of None \<Rightarrow> JUndefined | Some v \<Rightarrow> v)"

text \<open>
  The arithmetic of \<open>parseHash\<close> converts its operand: \<open>v - 10\<close> takes the number of
  \<open>v\<close>; \<open>v + 10\<close> appends to a string and adds to the number of anything else; \<open>Math.max\<close>
  and \<open>Math.min\<close> take the number of their arguments. The number of a string is the
  value of the numeric literal it holds between white space, 0 for an empty one, and
  \<open>NaN\<close> for any other text.
\<close>

definition is_str_ws :: "char \<Rightarrow> bool" where
  "is_str_ws c =
     (c = CHR 0x09 \<or> c = CHR 0x0A \<or> c = CHR 0x0B \<or> c = CHR 0x0C \<or> c = CHR 0x0D
      \<or> c = CHR 0x20 \<or> c = CHR 0xA0)"

definition trim :: "string \<Rightarrow> string" where
  "trim s = rev (dropWhile is_str_ws (rev (dropWhile is_str_ws s)))"

definition digits_in_base :: "nat \<Rightarrow> string \<Rightarrow> nat option" where
  "digits_in_base b ds =
     (if ds \<noteq> [] \<and> list_all (\<lambda>c. case hex_val c of None \<Rightarrow> False | Some d \<Rightarrow> d < b) ds
      then Some (foldl (\<lambda>a c. b * a + (case hex_val c of None \<Rightarrow> 0 | Some d \<Rightarrow> d)) 0 ds)
      else None)"

text \<open>An unsigned decimal literal: digits with an optional fraction and exponent, at
  least one digit before or after the point, and nothing behind.\<close>

definition decimal_literal :: "string \<Rightarrow> real option" where
  "decimal_literal s =
     (let ip = takeWhile is_digit s;
          s1 = dropWhile is_digit s;
          dot = (case s1 of [] \<Rightarrow> False | c # r \<Rightarrow> c = CHR ''.'');
          s2 = (if dot then tl s1 else s1);
          fd = (if dot then takeWhile is_digit s2 else []);
          s3 = (if dot then dropWhile is_digit s2 else s2)
      in if ip = [] \<and> fd = [] then None
         else (case exp_part s3 of
                 None \<Rightarrow> None
               | Some (ex, s4) \<Rightarrow>
                   (if s4 = []
                    then Some ((real (nat_of_digits ip) + real (nat_of_digits fd) / 10 ^ length fd)
                               * pow10 ex)
                    else None)))"

definition StringToNumber :: "string \<Rightarrow> jsnum" where
  "StringToNumber s =
     (let t = trim s
      in if t = [] then Fin 0
         else if take 2 t = ''0x'' \<or> take 2 t = ''0X'' then
           (case digits_in_base 16 (drop 2 t) of None \<Rightarrow> NaN | Some n \<Rightarrow> Fin (real n))
         else if take 2 t = ''0o'' \<or> take 2 t = ''0O'' then
           (case digits_in_base 8 (drop 2 t) of None \<Rightarrow> NaN | Some n \<Rightarrow> Fin (real n))
         else if take 2 t = ''0b'' \<or> take 2 t = ''0B'' then
           (case digits_in_base 2 (drop 2 t) of None \<Rightarrow> NaN | Some n \<Rightarrow> Fin (real n))
         else (let neg = (hd t = CHR ''-'');
                   u = (if hd t = CHR ''-'' \<or> hd t = CHR ''+'' then tl t else t)
               in if u = ''Infinity'' then (if neg then NInf else PInf)
                  else (case decimal_literal u of
                          None \<Rightarrow> NaN
                        | Some x \<Rightarrow> Fin (if neg then - x else x))))"

definition ToNumber :: "jsval \<Rightarrow> jsnum" where
  "ToNumber v =
     (case v of
        JUndefined \<Rightarrow> NaN
      | JNull \<Rightarrow> Fin 0
      | JBool b \<Rightarrow> Fin (if b then 1 else 0)
      | JNum n \<Rightarrow> n
      | JStr s \<Rightarrow> StringToNumber s)"

definition js_plus_10 :: "jsval \<Rightarrow> jsval" where
  "js_plus_10 v = (case v of JStr s \<Rightarrow> JStr (s @ ''10'') | _ \<Rightarrow> JNum (ToNumber v + Fin 10))"

definition shared_index :: "jsval \<Rightarrow> jsval risk_index" where
  "shared_index v =
     \<lparr> center = v,
       low = Math_max (Fin 0) (ToNumber v - Fin 10),
       high = Math_min (Fin 100) (ToNumber (js_plus_10 v)) \<rparr>"

fun truthy :: "jsval \<Rightarrow> bool" where
  "truthy JUndefined = False"
| "truthy JNull = False"
| "truthy (JBool b) = b"
| "truthy (JNum (Fin x)) = (x \<noteq> 0)"
| "truthy (JNum NaN) = False"
| "truthy (JNum n) = True"
| "truthy (JStr s) = (s \<noteq> [])"

text \<open>What a run of \<open>parseHash\<close> does to the state of the card: it stores a result and,
  for a truthy date, the date. \<open>None\<close> is a run that changes nothing: no marker, an
  exception (swallowed by the empty \<open>catch\<close>), or a payload that is not an object.\<close>

record hash_effects =
  setRiskResult :: "(jsval, jsval) risk_result"
  setDateISO :: "jsval option"

definition parseHash :: "string \<Rightarrow> hash_effects option" where
  "parseHash hash =
     (case indexOf hash marker of
        None \<Rightarrow> None
      | Some idx \<Rightarrow>
          (let enc = drop (idx + length marker) hash
           in case atob enc of
                None \<Rightarrow> None
              | Some txt \<Rightarrow>
                  (case JSON_parse txt of
                     None \<Rightarrow> None
                   | Some (Scalar v) \<Rightarrow> None
                   | Some (Object payload) \<Rightarrow>
                       Some \<lparr> setRiskResult =
                               \<lparr> source = ''shared'',
                                 date = get_prop payload ''d'',
                                 indices =
                                   \<lparr> heat = shared_index (get_prop payload ''h''),
                                     cold = shared_index (get_prop payload ''c''),
                                     wind = shared_index (get_prop payload ''w''),
                                     wet = shared_index (get_prop payload ''r'') \<rparr> \<rparr>,
                              setDateISO =
                                (if truthy (get_prop payload ''d'') then Some (get_prop payload ''d'')
                                 else None) \<rparr>)))"

section \<open>Predicates and inputs used in the statements\<close>

text \<open>The invariant of a risk index, with the comparisons of JavaScript.\<close>

definition ok_index :: "jsnum risk_index \<Rightarrow> bool" where
  "ok_index ix =
     (js_le (Fin 0) (low ix) \<and> js_le (low ix) (center ix) \<and> js_le (center ix) (high ix)
      \<and> js_le (high ix) (Fin 100))"

text \<open>A response without any parameter.\<close>

definition no_data :: power_param where
  "no_data = \<lparr> T2M = None, RH2M = None, WS10M = None, ALLSKY_SFC_UV_INDEX = None,
                PRECTOTCORR = None, T2M_MAX = None, T2M_MIN = None \<rparr>"

text \<open>A daily response whose humidity is the fill value \<open>-999\<close> of POWER, and an hourly
  response of one hour.\<close>

definition daily_fill :: power_param where
  "daily_fill = \<lparr> T2M = None, RH2M = Some [(''20251017'', Some (- 999))], WS10M = None,
      ALLSKY_SFC_UV_INDEX = None, PRECTOTCORR = Some [(''20251017'', Some 0)],
      T2M_MAX = Some [(''20251017'', Some 25)], T2M_MIN = Some [(''20251017'', Some 15)] \<rparr>"

definition hourly_one :: power_param where
  "hourly_one = \<lparr> T2M = Some [(''2025101700'', Some 20)], RH2M = None,
      WS10M = Some [(''2025101700'', Some 3)],
      ALLSKY_SFC_UV_INDEX = None, PRECTOTCORR = None, T2M_MAX = None, T2M_MIN = None \<rparr>"

text \<open>Live readings of 30 degrees, from OneCall and from the current-weather call, and a
  reanalysis entry of 20 degrees.\<close>

definition live_30 :: ow_current where
  "live_30 = \<lparr> temp = Some 30, humidity = Some 40, wind_speed = Some 5, uvi = Some 7 \<rparr>"

definition live_weather :: weather where
  "live_weather = \<lparr> temperature_c = Some 30, humidity_pct = Some 55, wind_ms = Some 4 \<rparr>"

definition reanalysis_20 :: hourly_entry where
  "reanalysis_20 = \<lparr> tempC = Some 20, humidityPct = Some 60, windMs = Some 2, precipMm = None,
                      uvIndex = Some 3 \<rparr>"

text \<open>Two generators: one whose every draw is 0, one whose every draw is one half.\<close>

definition rng_zeros :: rng where
  "rng_zeros = (\<lambda>n. 0)"

definition rng_halves :: rng where
  "rng_halves = (\<lambda>n. 1 / 2)"

text \<open>A result whose bands are not ten points either side of the centre.\<close>

definition result_42 :: "(jsnum, string) risk_result" where
  "result_42 =
     \<lparr> source = ''geos-s2s+gpm+merra2+power'', date = ''2025-10-17'',
       indices =
         \<lparr> heat = \<lparr> center = Fin 42, low = Fin 35, high = Fin 50 \<rparr>,
           cold = \<lparr> center = Fin 0, low = Fin 0, high = Fin 20 \<rparr>,
           wind = \<lparr> center = Fin 100, low = Fin 80, high = Fin 100 \<rparr>,
           wet = \<lparr> center = Fin 7, low = Fin 0, high = Fin 15 \<rparr> \<rparr> \<rparr>"





section \<open>Arithmetic of the model\<close>

lemma minus_Fin [simp]: "Fin x - Fin y = Fin (x - y)"
  by (simp add: minus_jsnum_def)

lemma round_half_up_eq:
  "of_int n - 1 / 2 \<le> x \<Longrightarrow> x < of_int n + 1 / 2 \<Longrightarrow> round_half_up x = of_int n"
  unfolding round_half_up_def by (simp add: floor_eq_iff)

lemma round_half_up_mono: "x \<le> y \<Longrightarrow> round_half_up x \<le> round_half_up y"
  unfolding round_half_up_def by (simp add: floor_mono)

lemma round_half_up_0 [simp]: "round_half_up 0 = 0"
  unfolding round_half_up_def by simp

lemma round_half_up_10 [simp]: "round_half_up 10 = 10"
  unfolding round_half_up_def by simp

lemma round_half_up_100 [simp]: "round_half_up 100 = 100"
  unfolding round_half_up_def by simp

lemma round_half_up_nonneg: "0 \<le> x \<Longrightarrow> 0 \<le> round_half_up x"
  using round_half_up_mono[of 0 x] by simp

lemma round_half_up_le_100: "x \<le> 100 \<Longrightarrow> round_half_up x \<le> 100"
  using round_half_up_mono[of x 100] by simp

text \<open>The logistic curve stays strictly between 0 and 100 on the reals.\<close>

lemma logistic_range: "0 < 100 / (1 + exp (z::real)) \<and> 100 / (1 + exp z) < 100"
  using exp_gt_zero[of z] by (simp add: divide_simps add_pos_pos)

lemma one_plus_exp_ne0 [simp]: "1 + exp (x::real) \<noteq> 0"
  using exp_gt_zero[of x] by linarith

subsection \<open>Bounds on the exponentials the scenarios need\<close>

lemma exp_twelfth_lower: "313 / 288 \<le> exp (1 / 12 :: real)"
  using exp_lower_Taylor_quadratic[of "1/12 :: real"] by (simp add: power2_eq_square)

lemma exp_twelfth_upper: "exp (1 / 12 :: real) \<le> 12 / 11"
proof -
  have "1 + (- (1/12)) \<le> exp (- (1 / 12 :: real))" by (rule exp_ge_add_one_self)
  then have "11 / 12 \<le> 1 / exp (1 / 12 :: real)" by (simp add: exp_minus divide_simps)
  then show ?thesis by (simp add: divide_simps)
qed

lemma exp_10_3: "exp (10 / 3 :: real) = exp (1 / 12) ^ 40"
  using exp_of_nat_mult[of 40 "1/12 :: real"] by simp

lemma exp_10_3_bounds: "2772 / 100 \<le> exp (10 / 3 :: real) \<and> exp (10 / 3 :: real) \<le> 38"
proof -
  have l1: "(313 / 288 :: real) ^ 40 \<le> exp (1 / 12) ^ 40"
    by (rule power_mono[OF exp_twelfth_lower]) simp
  have u1: "exp (1 / 12 :: real) ^ 40 \<le> (12 / 11) ^ 40"
    by (rule power_mono[OF exp_twelfth_upper]) simp
  have l2: "(2772 / 100 :: real) \<le> (313 / 288) ^ 40" by (simp add: power_divide)
  have u2: "(12 / 11 :: real) ^ 40 \<le> 38" by (simp add: power_divide)
  show ?thesis unfolding exp_10_3
    using order_trans[OF l2 l1] order_trans[OF u1 u2] by blast
qed

lemma exp_13_3: "exp (13 / 3 :: real) = exp (1 / 12) ^ 52"
  using exp_of_nat_mult[of 52 "1/12 :: real"] by simp

lemma exp_13_3_bounds: "66 \<le> exp (13 / 3 :: real) \<and> exp (13 / 3 :: real) \<le> 199"
proof -
  have l1: "(313 / 288 :: real) ^ 52 \<le> exp (1 / 12) ^ 52"
    by (rule power_mono[OF exp_twelfth_lower]) simp
  have u1: "exp (1 / 12 :: real) ^ 52 \<le> (12 / 11) ^ 52"
    by (rule power_mono[OF exp_twelfth_upper]) simp
  have l2: "(66 :: real) \<le> (313 / 288) ^ 52" by (simp add: power_divide)
  have u2: "(12 / 11 :: real) ^ 52 \<le> 199" by (simp add: power_divide)
  show ?thesis unfolding exp_13_3
    using order_trans[OF l2 l1] order_trans[OF u1 u2] by blast
qed

lemma exp_8_lower: "199 \<le> exp (8 :: real)"
proof -
  have "(2::real) \<le> exp 1" using exp_ge_add_one_self[of "1::real"] by simp
  then have "(2::real) ^ 8 \<le> exp 1 ^ 8" by (rule power_mono) simp
  moreover have "exp (8::real) = exp 1 ^ 8" using exp_of_nat_mult[of 8 "1::real"] by simp
  ultimately show ?thesis by simp
qed

lemma logistic_at_15: "96.5 \<le> 100 / (1 + exp (- (10/3 :: real))) \<and> 100 / (1 + exp (- (10/3 :: real))) < 97.5"
proof -
  define E where "E = exp (10/3 :: real)"
  have b: "2772 / 100 \<le> E" "E \<le> 38" using exp_10_3_bounds by (simp_all add: E_def)
  then have pos: "0 < E" by linarith
  have e: "exp (- (10/3 :: real)) = 1 / E" by (simp add: E_def exp_minus divide_simps)
  have "100 / (1 + 1 / E) = 100 * E / (E + 1)" using pos by (simp add: divide_simps)
  moreover have "96.5 \<le> 100 * E / (E + 1)" using b pos by (simp add: divide_simps)
  moreover have "100 * E / (E + 1) < 97.5" using b pos by (simp add: divide_simps)
  ultimately show ?thesis unfolding e by simp
qed

lemma logistic_at_5: "2.5 \<le> 100 / (1 + exp (10/3 :: real)) \<and> 100 / (1 + exp (10/3 :: real)) < 3.5"
  using exp_10_3_bounds exp_gt_zero[of "10/3 :: real"] by (simp add: divide_simps add_pos_pos)

lemma logistic_at_default_wind:
  "0.5 \<le> 100 / (1 + exp (13/3 :: real)) \<and> 100 / (1 + exp (13/3 :: real)) < 1.5"
  using exp_13_3_bounds exp_gt_zero[of "13/3 :: real"] by (simp add: divide_simps add_pos_pos)

lemma logistic_at_cold_default:
  "99.5 \<le> 100 / (1 + exp (- (8 :: real))) \<and> 100 / (1 + exp (- (8 :: real))) < 100"
proof -
  define E where "E = exp (8 :: real)"
  have b: "199 \<le> E" using exp_8_lower by (simp add: E_def)
  then have pos: "0 < E" by linarith
  have e: "exp (- (8 :: real)) = 1 / E" by (simp add: E_def exp_minus divide_simps)
  have "100 / (1 + 1 / E) = 100 * E / (E + 1)" using pos by (simp add: divide_simps)
  moreover have "99.5 \<le> 100 * E / (E + 1)" using b pos by (simp add: divide_simps)
  moreover have "100 * E / (E + 1) < 100" using b pos by (simp add: divide_simps)
  ultimately show ?thesis unfolding e by simp
qed

section \<open>The sanitizer\<close>

text \<open>
  Claim C5. For every raw number \<open>v\<close> of the reanalysis provider, the sanitized value is
  absent exactly when \<open>v\<close> is \<open>-999\<close> or \<open>-5994\<close>, and every other number passes
  unchanged; an absent raw value stays absent. The sanitizer is a total function of its
  argument, and \<open>getForecast\<close> applies it to each of the five fields of an hourly entry.
\<close>

theorem sanitizer_sentinels:
  "(sanitized (Some v) = None \<longleftrightarrow> v = - 999 \<or> v = - 5994) \<and>
   (v \<noteq> - 999 \<and> v \<noteq> - 5994 \<longrightarrow> sanitized (Some v) = Some v) \<and>
   sanitized None = None \<and>
   tempC (phEntry phParam key) = sanitized (at_key (T2M phParam) key) \<and>
   humidityPct (phEntry phParam key) = sanitized (at_key (RH2M phParam) key) \<and>
   windMs (phEntry phParam key) = sanitized (at_key (WS10M phParam) key) \<and>
   precipMm (phEntry phParam key) = sanitized (at_key (PRECTOTCORR phParam) key) \<and>
   uvIndex (phEntry phParam key) = sanitized (at_key (ALLSKY_SFC_UV_INDEX phParam) key)"
  by (simp add: sanitized_def isInvalidPowerValue_def phEntry_def Let_def)

theorem sanitizer_sentinels_witness:
  "sanitized (Some (- 999)) = None \<and> sanitized (Some (- 5994)) = None \<and>
   sanitized (Some 21.5) = Some 21.5 \<and>
   tempC (phEntry hourly_one ''2025101700'') = Some 20"
  using sanitizer_sentinels[of "- 999" hourly_one "''2025101700''"]
    sanitizer_sentinels[of "- 5994" hourly_one "''2025101700''"]
    sanitizer_sentinels[of "21.5" hourly_one "''2025101700''"]
    sanitizer_sentinels[of 20 hourly_one "''2025101700''"]
  by (simp add: hourly_one_def at_key_def)

section \<open>The apparent-cold metric\<close>

text \<open>
  Claim C7. For every present temperature \<open>t\<close> and wind speed \<open>w\<close> (in m/s, so
  \<open>w * 3.6\<close> km/h), the wind-chill formula is applied only when \<open>t \<le> 10\<close> and the wind
  exceeds 4.8 km/h; in every other case the apparent-cold metric is the temperature
  itself.
\<close>

theorem windChill_domain:
  "(t \<le> 10 \<and> 4.8 < w * 3.6 \<longrightarrow>
      windChill (Some t) w =
        Some (13.12 + 0.6215 * t - 11.37 * ((w * 3.6) powr 0.16)
              + 0.3965 * t * ((w * 3.6) powr 0.16))) \<and>
   (\<not> (t \<le> 10 \<and> 4.8 < w * 3.6) \<longrightarrow> windChill (Some t) w = Some t)"
  by (auto simp: windChill_def Let_def)

theorem windChill_domain_witness:
  "windChill (Some 0) 5 = Some (13.12 - 11.37 * (18 powr 0.16)) \<and>
   windChill (Some 20) 5 = Some 20 \<and>
   windChill (Some 0) 1 = Some 0"
  using windChill_domain[of 0 5] windChill_domain[of 20 5] windChill_domain[of 0 1]
  by simp

section \<open>The risk scores\<close>

lemma logistic_Fin:
  "s \<noteq> 0 \<Longrightarrow>
   Fin 100 / (Fin 1 + Math_exp ((- (Fin m - Fin t)) / Fin s)) = Fin (100 / (1 + exp (- ((m - t) / s))))"
proof -
  assume s: "s \<noteq> 0"
  have "(- (m - t)) / s = - ((m - t) / s)" by (rule minus_divide_left[symmetric])
  then have "(- (Fin m - Fin t)) / Fin s = Fin (- ((m - t) / s))" using s by (simp del: minus_diff_eq)
  then show ?thesis by (simp del: minus_diff_eq)
qed

lemma banded_Fin:
  "banded (Fin x) = \<lparr> center = Fin (round_half_up x),
                      low = Fin (round_half_up (max 0 (min 100 (x - 10)))),
                      high = Fin (round_half_up (max 0 (min 100 (x + 10)))) \<rparr>"
  by (simp add: banded_def clamp_def)

lemma banded_NaN: "banded NaN = \<lparr> center = NaN, low = NaN, high = NaN \<rparr>"
  by (simp add: banded_def clamp_def minus_jsnum_def)

lemma banded_zero: "banded (Fin 0) = \<lparr> center = Fin 0, low = Fin 0, high = Fin 10 \<rparr>"
  by (simp add: banded_Fin)

lemma banded_ok: "0 \<le> x \<Longrightarrow> x \<le> 100 \<Longrightarrow> ok_index (banded (Fin x))"
  unfolding ok_index_def banded_Fin
  by (auto intro!: round_half_up_nonneg round_half_up_le_100 round_half_up_mono)

lemma indices_simps:
  "heat (indices (computeLocalRiskFallback p ph d)) =
     banded (heatCenter (humidex (local_tmean p ph d) (at_key (RH2M p) (startKey_of d))))"
  "cold (indices (computeLocalRiskFallback p ph d)) =
     banded (coldCenter (coldMetric (windChill (local_tmean p ph d) (windMs_of (local_winds ph)))))"
  "wind (indices (computeLocalRiskFallback p ph d)) = banded (windCenter (windMs_of (local_winds ph)))"
  "wet (indices (computeLocalRiskFallback p ph d)) =
     banded (wetCenter (at_key (PRECTOTCORR p) (startKey_of d)))"
  by (simp_all add: computeLocalRiskFallback_def Let_def)

text \<open>
  Claim C6. For every present and finite input metric the centre of a hazard, before the
  result is rounded, is \<open>100 / (1 + e^(-(m - threshold)/scale))\<close>: threshold 35 and scale
  2.5 for heat on the humidex, 0 and 2.5 for cold on 5 minus the wind chill, 10 and 1.5
  for wind on the wind speed, 2 and 2 for wet on the daily precipitation. The centre
  stored in the result is that value rounded to the nearest integer.
\<close>

theorem risk_scoring_formula:
  "heatCenter (Some (Fin m)) = Fin (100 / (1 + exp (- ((m - 35) / 2.5)))) \<and>
   coldCenter (coldMetric (Some ac)) = Fin (100 / (1 + exp (- (((5 - ac) - 0) / 2.5)))) \<and>
   windCenter w = Fin (100 / (1 + exp (- ((w - 10) / 1.5)))) \<and>
   wetCenter (Some pr) = Fin (100 / (1 + exp (- ((pr - 2) / 2)))) \<and>
   center (heat (indices (computeLocalRiskFallback p ph d))) =
     Math_round (heatCenter (humidex (local_tmean p ph d) (at_key (RH2M p) (startKey_of d)))) \<and>
   center (cold (indices (computeLocalRiskFallback p ph d))) =
     Math_round (coldCenter (coldMetric (windChill (local_tmean p ph d) (windMs_of (local_winds ph))))) \<and>
   center (wind (indices (computeLocalRiskFallback p ph d))) =
     Math_round (windCenter (windMs_of (local_winds ph))) \<and>
   center (wet (indices (computeLocalRiskFallback p ph d))) =
     Math_round (wetCenter (at_key (PRECTOTCORR p) (startKey_of d)))"
proof -
  have "heatCenter (Some (Fin m)) = Fin (100 / (1 + exp (- ((m - 35) / 2.5)))) \<and>
     coldCenter (coldMetric (Some ac)) = Fin (100 / (1 + exp (- (((5 - ac) - 0) / 2.5)))) \<and>
     windCenter w = Fin (100 / (1 + exp (- ((w - 10) / 1.5)))) \<and>
     wetCenter (Some pr) = Fin (100 / (1 + exp (- ((pr - 2) / 2))))"
    unfolding heatCenter_def coldCenter_def coldMetric_def windCenter_def wetCenter_def option.case
    using logistic_Fin[of "2.5" m 35] logistic_Fin[of "2.5" "5 - ac" 0] logistic_Fin[of "1.5" w 10]
      logistic_Fin[of 2 pr 2]
    by simp
  then show ?thesis by (simp add: indices_simps banded_def)
qed

subsection \<open>The invariant of a risk index\<close>

lemma logistic_cases:
  "Fin 100 / (Fin 1 + Math_exp ((- (h - Fin t)) / Fin s)) = NaN \<or>
   (\<exists>x. Fin 100 / (Fin 1 + Math_exp ((- (h - Fin t)) / Fin s)) = Fin x \<and> 0 \<le> x \<and> x \<le> 100)"
proof (cases h)
  case (Fin m)
  show ?thesis
  proof (cases "s = 0")
    case True
    then show ?thesis using Fin by (auto simp: minus_jsnum_def)
  next
    case False
    have "0 < 100 / (1 + exp (- ((m - t) / s)))" "100 / (1 + exp (- ((m - t) / s))) < 100"
      using logistic_range[of "- ((m - t) / s)"] by simp_all
    then show ?thesis unfolding Fin logistic_Fin[OF False] by simp
  qed
qed (auto simp: minus_jsnum_def)

lemma logistic_Fin_range:
  "s \<noteq> 0 \<Longrightarrow>
   \<exists>x. Fin 100 / (Fin 1 + Math_exp ((- (Fin m - Fin t)) / Fin s)) = Fin x \<and> 0 \<le> x \<and> x \<le> 100"
proof -
  assume s: "s \<noteq> 0"
  have "0 < 100 / (1 + exp (- ((m - t) / s)))" "100 / (1 + exp (- ((m - t) / s))) < 100"
    using logistic_range[of "- ((m - t) / s)"] by simp_all
  then show ?thesis unfolding logistic_Fin[OF s] by simp
qed

lemma heatCenter_cases:
  "heatCenter hx = NaN \<or> (\<exists>x. heatCenter hx = Fin x \<and> 0 \<le> x \<and> x \<le> 100)"
  unfolding heatCenter_def using logistic_cases[of _ 35 "2.5"] by (cases hx) auto

lemma coldCenter_Fin: "\<exists>x. coldCenter cm = Fin x \<and> 0 \<le> x \<and> x \<le> 100"
  unfolding coldCenter_def by (rule logistic_Fin_range) simp

lemma windCenter_Fin: "\<exists>x. windCenter w = Fin x \<and> 0 \<le> x \<and> x \<le> 100"
  unfolding windCenter_def by (rule logistic_Fin_range) simp

lemma wetCenter_Fin: "\<exists>x. wetCenter pr = Fin x \<and> 0 \<le> x \<and> x \<le> 100"
proof (cases pr)
  case None
  then show ?thesis by (simp add: wetCenter_def)
next
  case (Some a)
  show ?thesis unfolding wetCenter_def Some option.case by (rule logistic_Fin_range) simp
qed

text \<open>
  What holds of the invariant on every input: the cold, wind and wet indices satisfy it,
  and the heat index satisfies it unless its centre is \<open>NaN\<close>.
\<close>

lemma risk_invariant_unless_nan:
  "(center (heat (indices (computeLocalRiskFallback p ph d))) = NaN \<or>
      ok_index (heat (indices (computeLocalRiskFallback p ph d)))) \<and>
   ok_index (cold (indices (computeLocalRiskFallback p ph d))) \<and>
   ok_index (wind (indices (computeLocalRiskFallback p ph d))) \<and>
   ok_index (wet (indices (computeLocalRiskFallback p ph d)))"
proof -
  have h: "center (banded (heatCenter hx)) = NaN \<or> ok_index (banded (heatCenter hx))" for hx
    using heatCenter_cases[of hx] by (auto simp: banded_NaN banded_ok)
  have c: "ok_index (banded (coldCenter cm))" for cm
    using coldCenter_Fin[of cm] by (auto simp: banded_ok)
  have w: "ok_index (banded (windCenter x))" for x
    using windCenter_Fin[of x] by (auto simp: banded_ok)
  have r: "ok_index (banded (wetCenter x))" for x
    using wetCenter_Fin[of x] by (auto simp: banded_ok)
  show ?thesis unfolding indices_simps using h c w r by blast
qed

text \<open>
  Claim C1. Every risk index of the local computation satisfies
  \<open>0 \<le> low \<le> center \<le> high \<le> 100\<close> after rounding. The computation reads the daily
  humidity without sanitizing it. With the fill value \<open>-999\<close> as humidity and a
  temperature of 20 degrees, \<open>Math.log\<close> is taken of a negative number: the three fields
  of the heat index are \<open>NaN\<close>, and no comparison of the invariant holds.
\<close>

theorem heat_index_nan_on_fill_value:
  "heat (indices (computeLocalRiskFallback daily_fill hourly_one ''2025-10-17'')) =
     \<lparr> center = NaN, low = NaN, high = NaN \<rparr> \<and>
   \<not> ok_index (heat (indices (computeLocalRiskFallback daily_fill hourly_one ''2025-10-17'')))"
  by (simp add: indices_simps daily_fill_def hourly_one_def at_key_def Object_keys_def
      local_tmean_def local_temps_def startKey_of_def ok_index_def
      tmean_of_def mean_def humidex_def heatCenter_def banded_NaN minus_jsnum_def Let_def)

subsection \<open>Absent inputs\<close>

lemma windCenter_default: "windCenter (7 / 2) = Fin (100 / (1 + exp (13/3)))"
  unfolding windCenter_def using logistic_Fin[of "1.5" "7/2" 10] by simp

lemma banded_default_wind:
  "banded (windCenter (7 / 2)) = \<lparr> center = Fin 1, low = Fin 0, high = Fin 11 \<rparr>"
proof -
  define x where "x = 100 / (1 + exp (13/3 :: real))"
  have r: "0.5 \<le> x" "x < 1.5" using logistic_at_default_wind by (simp_all add: x_def)
  have c: "round_half_up x = 1" using round_half_up_eq[of 1 x] r by simp
  have l: "max 0 (min 100 (x - 10)) = 0" using r by simp
  have h: "max 0 (min 100 (x + 10)) = x + 10" using r by simp
  have h': "round_half_up (x + 10) = 11" using round_half_up_eq[of 11 "x + 10"] r by simp
  show ?thesis unfolding windCenter_default banded_Fin x_def[symmetric] by (simp add: c l h h')
qed

lemma coldCenter_absent: "coldCenter (coldMetric None) = Fin (100 / (1 + exp (- 8)))"
  unfolding coldCenter_def coldMetric_def option.case using logistic_Fin[of "2.5" 20 0] by simp

lemma banded_cold_absent:
  "banded (coldCenter (coldMetric None)) = \<lparr> center = Fin 100, low = Fin 90, high = Fin 100 \<rparr>"
proof -
  define x where "x = 100 / (1 + exp (- (8 :: real)))"
  have r: "99.5 \<le> x" "x < 100" using logistic_at_cold_default by (simp_all add: x_def)
  have c: "round_half_up x = 100" using round_half_up_eq[of 100 x] r by simp
  have l: "max 0 (min 100 (x - 10)) = x - 10" using r by simp
  have l': "round_half_up (x - 10) = 90" using round_half_up_eq[of 90 "x - 10"] r by simp
  have h: "max 0 (min 100 (x + 10)) = 100" using r by simp
  show ?thesis unfolding coldCenter_absent banded_Fin x_def[symmetric] by (simp add: c l l' h)
qed

text \<open>
  Claim C2, as stated: for each of the four hazards an absent input metric gives centre 0
  with the default band, and an absent input is never replaced by a default value. It
  fails for wind and for cold. With no data at all the wind speed is replaced by
  \<open>3.5\<close> m/s, which gives the wind centre 1, and the cold metric is replaced by 20,
  which gives the cold centre 100.
\<close>

theorem absent_metric_counterexample:
  "center (wind (indices (computeLocalRiskFallback no_data no_data ''2025-10-17''))) = Fin 1 \<and>
   center (cold (indices (computeLocalRiskFallback no_data no_data ''2025-10-17''))) = Fin 100"
  by (simp add: indices_simps no_data_def Object_keys_def at_key_def windMs_of_def tmean_of_def
      local_tmean_def local_temps_def local_winds_def windChill_def banded_default_wind
      banded_cold_absent)

text \<open>
  Claim C2, amended. When the humidex is absent (the humidity or the temperature is), the
  heat index has centre 0 and the band from 0 to 10, whatever the other inputs are; when
  the daily precipitation is absent, so has the wet index. The wind speed is never
  absent: without an hourly wind value the computation takes \<open>3.5\<close> m/s in its place,
  and the wind index is centre 1 with the band from 0 to 11.
\<close>

theorem absent_metric_defaults:
  "(humidex (local_tmean p ph d) (at_key (RH2M p) (startKey_of d)) = None \<longrightarrow>
      heat (indices (computeLocalRiskFallback p ph d)) =
        \<lparr> center = Fin 0, low = Fin 0, high = Fin 10 \<rparr>) \<and>
   (at_key (RH2M p) (startKey_of d) = None \<longrightarrow>
      heat (indices (computeLocalRiskFallback p ph d)) =
        \<lparr> center = Fin 0, low = Fin 0, high = Fin 10 \<rparr>) \<and>
   (local_tmean p ph d = None \<longrightarrow>
      heat (indices (computeLocalRiskFallback p ph d)) =
        \<lparr> center = Fin 0, low = Fin 0, high = Fin 10 \<rparr>) \<and>
   (at_key (PRECTOTCORR p) (startKey_of d) = None \<longrightarrow>
      wet (indices (computeLocalRiskFallback p ph d)) =
        \<lparr> center = Fin 0, low = Fin 0, high = Fin 10 \<rparr>) \<and>
   (local_winds ph = [] \<longrightarrow>
      wind (indices (computeLocalRiskFallback p ph d)) =
        \<lparr> center = Fin 1, low = Fin 0, high = Fin 11 \<rparr>)"
  by (auto simp: indices_simps heatCenter_def wetCenter_def banded_zero humidex_def windMs_of_def
      banded_default_wind split: option.splits)

theorem absent_metric_defaults_witness:
  "heat (indices (computeLocalRiskFallback no_data hourly_one ''2025-10-17'')) =
     \<lparr> center = Fin 0, low = Fin 0, high = Fin 10 \<rparr> \<and>
   heat (indices (computeLocalRiskFallback daily_fill no_data ''2025-10-18'')) =
     \<lparr> center = Fin 0, low = Fin 0, high = Fin 10 \<rparr> \<and>
   wet (indices (computeLocalRiskFallback no_data hourly_one ''2025-10-17'')) =
     \<lparr> center = Fin 0, low = Fin 0, high = Fin 10 \<rparr> \<and>
   wind (indices (computeLocalRiskFallback no_data no_data ''2025-10-17'')) =
     \<lparr> center = Fin 1, low = Fin 0, high = Fin 11 \<rparr>"
  using absent_metric_defaults[of no_data hourly_one "''2025-10-17''"]
    absent_metric_defaults[of daily_fill no_data "''2025-10-18''"]
    absent_metric_defaults[of no_data no_data "''2025-10-17''"]
  by (simp add: no_data_def hourly_one_def daily_fill_def at_key_def Object_keys_def
      local_winds_def local_tmean_def local_temps_def tmean_of_def startKey_of_def)

subsection \<open>The wind scenario\<close>

lemma windCenter_15: "windCenter 15 = Fin (100 / (1 + exp (- (10/3))))"
  unfolding windCenter_def using logistic_Fin[of "1.5" 15 10] by simp

lemma windCenter_5: "windCenter 5 = Fin (100 / (1 + exp (10/3)))"
  unfolding windCenter_def using logistic_Fin[of "1.5" 5 10] by simp

lemma wind_15_rounded: "center (banded (windCenter 15)) = Fin 97"
  using logistic_at_15 round_half_up_eq[of 97 "100 / (1 + exp (- (10/3 :: real)))"]
  by (simp add: banded_def windCenter_15)

lemma wind_5_rounded: "center (banded (windCenter 5)) = Fin 3"
  using logistic_at_5 round_half_up_eq[of 3 "100 / (1 + exp (10/3 :: real))"]
  by (simp add: banded_def windCenter_5)

text \<open>
  Claim C9, as stated: a wind speed of 15 m/s gives a centre of approximately 94 and one
  of 5 m/s a centre of approximately 10. The curve gives at least 96.5 at 15 m/s and at
  most 3.5 at 5 m/s, and the rounded centres are neither 94 nor 10.
\<close>

theorem wind_scenario_counterexample:
  "js_le (Fin 96.5) (windCenter 15) \<and> js_le (windCenter 5) (Fin 3.5) \<and>
   center (banded (windCenter 15)) \<noteq> Fin 94 \<and> center (banded (windCenter 5)) \<noteq> Fin 10"
proof -
  have "js_le (Fin 96.5) (windCenter 15)"
    using logistic_at_15 by (simp add: windCenter_15)
  moreover have "js_le (windCenter 5) (Fin 3.5)"
    using logistic_at_5 by (simp add: windCenter_5)
  ultimately show ?thesis
    by (simp add: wind_15_rounded wind_5_rounded)
qed

text \<open>
  Claim C9, amended. A wind speed of 15 m/s maps through the wind curve to a value
  between 96.5 and 97.5 and the centre 97; a wind speed of 5 m/s maps to a value between
  2.5 and 3.5 and the centre 3.
\<close>

theorem wind_scenario:
  "(\<exists>x. windCenter 15 = Fin x \<and> 96.5 \<le> x \<and> x < 97.5) \<and>
   center (banded (windCenter 15)) = Fin 97 \<and>
   (\<exists>y. windCenter 5 = Fin y \<and> 2.5 \<le> y \<and> y < 3.5) \<and>
   center (banded (windCenter 5)) = Fin 3"
proof -
  have "\<exists>x. windCenter 15 = Fin x \<and> 96.5 \<le> x \<and> x < 97.5"
    using logistic_at_15 by (simp add: windCenter_15)
  moreover have "\<exists>y. windCenter 5 = Fin y \<and> 2.5 \<le> y \<and> y < 3.5"
    using logistic_at_5 by (simp add: windCenter_5)
  ultimately show ?thesis
    using wind_15_rounded wind_5_rounded by blast
qed

section \<open>The merge\<close>

text \<open>
  Claim C4. For each merged field (temperature, humidity, wind, UV), a live value that is
  present is the one taken, rounded to the nearest integer for temperature, humidity and
  UV and as it is for wind, whatever the reanalysis holds; the reanalysis value is taken
  only when every live value of the field is absent. The live values are those of the
  OneCall response first and of \<open>fetchWeather\<close> second, which returns the OpenWeather
  reading whenever that call resolved. Live temperature 30 and reanalysis temperature
  20 merge to 30.
\<close>

theorem merge_precedence:
  "(of_current owCurrent temp = Some v \<longrightarrow>
      merged_tempC owCurrent oe next12 = Some (round_half_up v)) \<and>
   (of_current owCurrent temp = None \<and> of_oe oe temperature_c = Some v \<longrightarrow>
      merged_tempC owCurrent oe next12 = Some (round_half_up v)) \<and>
   (of_current owCurrent temp = None \<and> of_oe oe temperature_c = None \<longrightarrow>
      merged_tempC owCurrent oe next12 = map_option round_half_up (first_of next12 tempC)) \<and>
   (of_current owCurrent humidity = Some v \<longrightarrow>
      merged_humidityPct owCurrent oe next12 = Some (round_half_up v)) \<and>
   (of_current owCurrent humidity = None \<and> of_oe oe humidity_pct = Some v \<longrightarrow>
      merged_humidityPct owCurrent oe next12 = Some (round_half_up v)) \<and>
   (of_current owCurrent humidity = None \<and> of_oe oe humidity_pct = None \<longrightarrow>
      merged_humidityPct owCurrent oe next12 = map_option round_half_up (first_of next12 humidityPct)) \<and>
   (of_current owCurrent wind_speed = Some v \<longrightarrow> merged_windMs owCurrent oe next12 = Some v) \<and>
   (of_current owCurrent wind_speed = None \<and> of_oe oe wind_ms = Some v \<longrightarrow>
      merged_windMs owCurrent oe next12 = Some v) \<and>
   (of_current owCurrent wind_speed = None \<and> of_oe oe wind_ms = None \<longrightarrow>
      merged_windMs owCurrent oe next12 = first_of next12 windMs) \<and>
   (of_current owCurrent uvi = Some v \<longrightarrow>
      merged_uvIndex owCurrent daily0 uvDaily next12 = Some (round_half_up v)) \<and>
   (of_current owCurrent uvi = None \<and> daily0 = Some v \<longrightarrow>
      merged_uvIndex owCurrent daily0 uvDaily next12 = Some (round_half_up v)) \<and>
   (of_current owCurrent uvi = None \<and> daily0 = None \<longrightarrow>
      merged_uvIndex owCurrent daily0 uvDaily next12 =
        map_option round_half_up (case uvDaily of Some u \<Rightarrow> Some u | None \<Rightarrow> first_of next12 uvIndex)) \<and>
   fetchWeather (Resolved w) param = w"
  by (auto simp: merged_tempC_def merged_humidityPct_def merged_windMs_def merged_uvIndex_def
      oeUv_def fetchWeather_def split: option.splits)

lemma round_half_up_numerals:
  "round_half_up 3 = 3" "round_half_up 5 = 5" "round_half_up 6 = 6" "round_half_up 7 = 7"
  "round_half_up 20 = 20" "round_half_up 30 = 30" "round_half_up 40 = 40"
  "round_half_up 55 = 55" "round_half_up 60 = 60"
  by (simp_all add: round_half_up_def)

theorem merge_precedence_witness:
  "merged_tempC (Some live_30) None [reanalysis_20] = Some 30 \<and>
   merged_tempC None (Some (fetchWeather (Resolved live_weather) no_data)) [reanalysis_20] = Some 30 \<and>
   merged_tempC None None [reanalysis_20] = Some 20 \<and>
   merged_humidityPct (Some live_30) None [reanalysis_20] = Some 40 \<and>
   merged_humidityPct None (Some live_weather) [reanalysis_20] = Some 55 \<and>
   merged_humidityPct None None [reanalysis_20] = Some 60 \<and>
   merged_windMs (Some live_30) None [reanalysis_20] = Some 5 \<and>
   merged_windMs None (Some live_weather) [reanalysis_20] = Some 4 \<and>
   merged_windMs None None [reanalysis_20] = Some 2 \<and>
   merged_uvIndex (Some live_30) None (Some 5) [reanalysis_20] = Some 7 \<and>
   merged_uvIndex None (Some 6) (Some 5) [reanalysis_20] = Some 6 \<and>
   merged_uvIndex None None (Some 5) [reanalysis_20] = Some 5 \<and>
   merged_uvIndex None None None [reanalysis_20] = Some 3"
  using merge_precedence[of "Some live_30" 30 None "[reanalysis_20]" None "Some 5" live_weather no_data]
    merge_precedence[of "Some live_30" 40 None "[reanalysis_20]" None "Some 5" live_weather no_data]
    merge_precedence[of "Some live_30" 5 None "[reanalysis_20]" None "Some 5" live_weather no_data]
    merge_precedence[of "Some live_30" 7 None "[reanalysis_20]" None "Some 5" live_weather no_data]
    merge_precedence[of None 30 "Some (fetchWeather (Resolved live_weather) no_data)"
      "[reanalysis_20]" "Some 6" "Some 5" live_weather no_data]
    merge_precedence[of None 55 "Some live_weather" "[reanalysis_20]" "Some 6" "Some 5" live_weather no_data]
    merge_precedence[of None 4 "Some live_weather" "[reanalysis_20]" "Some 6" "Some 5" live_weather no_data]
    merge_precedence[of None 6 "Some live_weather" "[reanalysis_20]" "Some 6" "Some 5" live_weather no_data]
    merge_precedence[of None 0 None "[reanalysis_20]" None "Some 5" live_weather no_data]
    merge_precedence[of None 0 None "[reanalysis_20]" None None live_weather no_data]
  by (simp add: of_current_def of_oe_def first_of_def live_30_def reanalysis_20_def
      live_weather_def round_half_up_numerals)

section \<open>The synthetic data\<close>

lemma digit_char_inj: "a < 10 \<Longrightarrow> b < 10 \<Longrightarrow> digit_char a = digit_char b \<Longrightarrow> a = b"
proof -
  assume a: "a < 10" and b: "b < 10" and e: "digit_char a = digit_char b"
  from e have "(of_char (char_of (48 + a)) :: nat) = of_char (char_of (48 + b))"
    by (simp add: digit_char_def)
  then show "a = b" using a b by simp
qed

lemma String_nat_small: "n < 10 \<Longrightarrow> String_nat n = [digit_char n]"
  by (subst String_nat.simps) simp

lemma String_nat_big: "10 \<le> n \<Longrightarrow> String_nat n = String_nat (n div 10) @ [digit_char (n mod 10)]"
  by (subst String_nat.simps) simp

lemma digit_char_0: "digit_char 0 = CHR ''0''"
  unfolding digit_char_def by code_simp

lemma String_nat_two: "h < 100 \<Longrightarrow> padStart (String_nat h) 2 (CHR ''0'') = [digit_char (h div 10), digit_char (h mod 10)]"
proof (cases "h < 10")
  case True
  then show ?thesis by (simp add: String_nat_small padStart_def digit_char_0)
next
  case False
  assume "h < 100"
  with False have "h div 10 < 10" "10 \<le> h" by simp_all
  then show ?thesis by (simp add: String_nat_big String_nat_small padStart_def)
qed

lemma timeKey_two: "h < 100 \<Longrightarrow> timeKey sd h = sd @ [digit_char (h div 10), digit_char (h mod 10)]"
  by (simp add: timeKey_def String_nat_two)

lemma timeKey_inj: "h < 100 \<Longrightarrow> h' < 100 \<Longrightarrow> timeKey sd h = timeKey sd h' \<Longrightarrow> h = h'"
proof -
  assume h: "h < 100" and h': "h' < 100" and e: "timeKey sd h = timeKey sd h'"
  then have "digit_char (h div 10) = digit_char (h' div 10)" "digit_char (h mod 10) = digit_char (h' mod 10)"
    by (simp_all add: timeKey_two)
  then have "h div 10 = h' div 10" "h mod 10 = h' mod 10"
    using h h' by (auto intro: digit_char_inj)
  then show "h = h'" by (metis div_mult_mod_eq)
qed

lemma put_key_fresh:
  "n < 100 \<Longrightarrow>
   put_key (Some (map (\<lambda>h. (timeKey sd h, Some (f h))) [0..<n])) (timeKey sd n) v =
     Some (map (\<lambda>h. (timeKey sd h, Some (f h))) [0..<n] @ [(timeKey sd n, Some v)])"
proof -
  assume n: "n < 100"
  have "timeKey sd n \<noteq> timeKey sd h" if "h < n" for h
    using timeKey_inj[of n h sd] n that by auto
  then show ?thesis by (auto simp: put_key_def Let_def image_iff)
qed

lemma put_key_extend:
  "n < 100 \<Longrightarrow> v = f n \<Longrightarrow>
   put_key (Some (map (\<lambda>h. (timeKey sd h, Some (f h))) [0..<n])) (timeKey sd n) v =
     Some (map (\<lambda>h. (timeKey sd h, Some (f h))) [0..<Suc n])"
  by (simp add: put_key_fresh)

lemma mock_prefix:
  "n \<le> 24 \<Longrightarrow>
   foldl (mock_hour sd lat lon) (mockData0, g) [0..<n] =
     (\<lparr> T2M = Some (map (\<lambda>h. (timeKey sd h, Some (20 + sin (real h * 0.3) * 8 + (lat * 0.1)))) [0..<n]),
        RH2M = Some (map (\<lambda>h. (timeKey sd h, Some (50 + cos (real h * 0.2) * 20 + (lon * 0.1)))) [0..<n]),
        WS10M = Some (map (\<lambda>h. (timeKey sd h, Some (3 + g (2 * h) * 5))) [0..<n]),
        ALLSKY_SFC_UV_INDEX = Some (map (\<lambda>h. (timeKey sd h, Some (max 0 (sin (real h * 0.2) * 6)))) [0..<n]),
        PRECTOTCORR = Some (map (\<lambda>h. (timeKey sd h, Some (g (2 * h + 1) * 2))) [0..<n]),
        T2M_MAX = None, T2M_MIN = None \<rparr>,
      \<lambda>k. g (k + 2 * n))"
proof (induction n)
  case 0
  show ?case by (simp add: mockData0_def)
next
  case (Suc n)
  then have n: "n < 100" and IH: "foldl (mock_hour sd lat lon) (mockData0, g) [0..<n] =
     (\<lparr> T2M = Some (map (\<lambda>h. (timeKey sd h, Some (20 + sin (real h * 0.3) * 8 + (lat * 0.1)))) [0..<n]),
        RH2M = Some (map (\<lambda>h. (timeKey sd h, Some (50 + cos (real h * 0.2) * 20 + (lon * 0.1)))) [0..<n]),
        WS10M = Some (map (\<lambda>h. (timeKey sd h, Some (3 + g (2 * h) * 5))) [0..<n]),
        ALLSKY_SFC_UV_INDEX = Some (map (\<lambda>h. (timeKey sd h, Some (max 0 (sin (real h * 0.2) * 6)))) [0..<n]),
        PRECTOTCORR = Some (map (\<lambda>h. (timeKey sd h, Some (g (2 * h + 1) * 2))) [0..<n]),
        T2M_MAX = None, T2M_MIN = None \<rparr>,
      \<lambda>k. g (k + 2 * n))" by simp_all
  have "foldl (mock_hour sd lat lon) (mockData0, g) [0..<Suc n] =
        mock_hour sd lat lon (foldl (mock_hour sd lat lon) (mockData0, g) [0..<n]) n"
    by simp
  also have "\<dots> = (\<lparr> T2M = Some (map (\<lambda>h. (timeKey sd h, Some (20 + sin (real h * 0.3) * 8 + (lat * 0.1)))) [0..<Suc n]),
        RH2M = Some (map (\<lambda>h. (timeKey sd h, Some (50 + cos (real h * 0.2) * 20 + (lon * 0.1)))) [0..<Suc n]),
        WS10M = Some (map (\<lambda>h. (timeKey sd h, Some (3 + g (2 * h) * 5))) [0..<Suc n]),
        ALLSKY_SFC_UV_INDEX = Some (map (\<lambda>h. (timeKey sd h, Some (max 0 (sin (real h * 0.2) * 6)))) [0..<Suc n]),
        PRECTOTCORR = Some (map (\<lambda>h. (timeKey sd h, Some (g (2 * h + 1) * 2))) [0..<Suc n]),
        T2M_MAX = None, T2M_MIN = None \<rparr>,
      \<lambda>k. g (k + 2 * Suc n))"
    unfolding IH mock_hour_def Let_def Math_random_def
    by (simp add: put_key_extend[OF n] add.commute add.left_commute del: upt_Suc)
  finally show ?case .
qed

text \<open>What the generator returns, series by series: three series follow from the
  arguments, and the wind and precipitation series from the draws.\<close>

lemma generateMockPowerData_eq:
  "generateMockPowerData sd lat lon g =
     (\<lparr> T2M = Some (map (\<lambda>h. (timeKey sd h, Some (20 + sin (real h * 0.3) * 8 + (lat * 0.1)))) [0..<24]),
        RH2M = Some (map (\<lambda>h. (timeKey sd h, Some (50 + cos (real h * 0.2) * 20 + (lon * 0.1)))) [0..<24]),
        WS10M = Some (map (\<lambda>h. (timeKey sd h, Some (3 + g (2 * h) * 5))) [0..<24]),
        ALLSKY_SFC_UV_INDEX = Some (map (\<lambda>h. (timeKey sd h, Some (max 0 (sin (real h * 0.2) * 6)))) [0..<24]),
        PRECTOTCORR = Some (map (\<lambda>h. (timeKey sd h, Some (g (2 * h + 1) * 2))) [0..<24]),
        T2M_MAX = None, T2M_MIN = None \<rparr>,
      \<lambda>k. g (k + 2 * 24))"
  unfolding generateMockPowerData_def by (rule mock_prefix) simp

text \<open>
  Claim C8, as stated: the synthetic output is a deterministic function of latitude,
  longitude and date, and it is marked as synthetic. Two runs of the failing fetch on
  the same arguments, one with every draw of \<open>Math.random\<close> 0 and one with every draw
  one half, return different data.
\<close>

theorem synthetic_fallback_counterexample:
  "fst (fetchPowerHourly NetworkError (- 33.8688) 151.2093 ''20251017'' ''20251017'' rng_zeros) \<noteq>
   fst (fetchPowerHourly NetworkError (- 33.8688) 151.2093 ''20251017'' ''20251017'' rng_halves)"
proof
  assume "fst (fetchPowerHourly NetworkError (- 33.8688) 151.2093 ''20251017'' ''20251017'' rng_zeros) =
   fst (fetchPowerHourly NetworkError (- 33.8688) 151.2093 ''20251017'' ''20251017'' rng_halves)"
  then have "WS10M (fst (generateMockPowerData ''20251017'' (- 33.8688) 151.2093 rng_zeros)) =
             WS10M (fst (generateMockPowerData ''20251017'' (- 33.8688) 151.2093 rng_halves))"
    by (simp add: fetchPowerHourly_def)
  then have "map (\<lambda>h. (timeKey ''20251017'' h, Some (3 + rng_zeros (2 * h) * 5))) [0..<24] =
             map (\<lambda>h. (timeKey ''20251017'' h, Some (3 + rng_halves (2 * h) * 5))) [0..<24]"
    by (simp only: generateMockPowerData_eq fst_conv power_param.simps option.inject)
  then have "\<forall>h \<in> set [0..<24]. (timeKey ''20251017'' h, Some (3 + rng_zeros (2 * h) * 5)) =
             (timeKey ''20251017'' h, Some (3 + rng_halves (2 * h) * 5))"
    by (simp only: map_eq_conv)
  then have "(timeKey ''20251017'' 0, Some (3 + rng_zeros (2 * 0) * 5)) =
             (timeKey ''20251017'' 0, Some (3 + rng_halves (2 * 0) * 5))"
    by (rule bspec) simp
  then show False by (simp add: rng_zeros_def rng_halves_def)
qed

text \<open>
  Claim C8, amended. When the fetch of the hourly data fails (the request throws, the
  status is not ok, or the body is not JSON), \<open>fetchPowerHourly\<close> still returns data, the
  output of the synthetic generator. Of that output the temperature, humidity and UV
  series are functions of the start date, the latitude and the longitude; the wind and
  precipitation series are \<open>3 + 5u\<close> and \<open>2u\<close> for the successive draws \<open>u\<close> of
  \<open>Math.random\<close>. The output carries no mark: it is what a fetch that delivered the
  same parameters would return.
\<close>

theorem synthetic_fallback:
  "fetchPowerHourly NetworkError lat lon sd ed g = generateMockPowerData sd lat lon g \<and>
   fetchPowerHourly (NotOk st) lat lon sd ed g = generateMockPowerData sd lat lon g \<and>
   fetchPowerHourly BadBody lat lon sd ed g = generateMockPowerData sd lat lon g \<and>
   T2M (fst (generateMockPowerData sd lat lon g)) =
     Some (map (\<lambda>h. (timeKey sd h, Some (20 + sin (real h * 0.3) * 8 + (lat * 0.1)))) [0..<24]) \<and>
   RH2M (fst (generateMockPowerData sd lat lon g)) =
     Some (map (\<lambda>h. (timeKey sd h, Some (50 + cos (real h * 0.2) * 20 + (lon * 0.1)))) [0..<24]) \<and>
   ALLSKY_SFC_UV_INDEX (fst (generateMockPowerData sd lat lon g)) =
     Some (map (\<lambda>h. (timeKey sd h, Some (max 0 (sin (real h * 0.2) * 6)))) [0..<24]) \<and>
   WS10M (fst (generateMockPowerData sd lat lon g)) =
     Some (map (\<lambda>h. (timeKey sd h, Some (3 + g (2 * h) * 5))) [0..<24]) \<and>
   PRECTOTCORR (fst (generateMockPowerData sd lat lon g)) =
     Some (map (\<lambda>h. (timeKey sd h, Some (g (2 * h + 1) * 2))) [0..<24]) \<and>
   fst (fetchPowerHourly (Body (fst (generateMockPowerData sd lat lon g))) lat lon sd ed g') =
     fst (fetchPowerHourly NetworkError lat lon sd ed g)"
  by (simp add: fetchPowerHourly_def generateMockPowerData_eq)

section \<open>The share link\<close>

subsection \<open>\<open>atob\<close> undoes \<open>btoa\<close>\<close>

lemma b64_table:
  "\<forall>n \<in> set [0..<64]. dec6 (enc6 n) = Some n \<and> enc6 n \<noteq> CHR ''='' \<and> \<not> is_ascii_ws (enc6 n)"
  by code_simp

lemma b64_facts:
  assumes "n < 64"
  shows "dec6 (enc6 n) = Some n" "enc6 n \<noteq> CHR ''=''" "\<not> is_ascii_ws (enc6 n)"
  using b64_table assms by auto

lemma six_bits:
  fixes a b c :: nat
  assumes "a < 256" "b < 256" "c < 256"
  shows "a div 4 < 64" "(a mod 4) * 16 < 64" "(a mod 4) * 16 + b div 16 < 64"
    "(b mod 16) * 4 < 64" "(b mod 16) * 4 + c div 64 < 64" "c mod 64 < 64"
proof -
  have 1: "a mod 4 < 4" "b mod 16 < 16" by simp_all
  have 2: "b div 16 < 16" "c div 64 < 4" "a div 4 < 64" using assms by (simp_all add: less_mult_imp_div_less)
  show "a div 4 < 64" by (rule 2)
  show "(a mod 4) * 16 < 64" using 1 by linarith
  show "(a mod 4) * 16 + b div 16 < 64" using 1 2 by linarith
  show "(b mod 16) * 4 < 64" using 1 by linarith
  show "(b mod 16) * 4 + c div 64 < 64" using 1 2 by linarith
  show "c mod 64 < 64" by simp
qed

lemma sextets_lt: "\<forall>b \<in> set bs. b < 256 \<Longrightarrow> \<forall>s \<in> set (sextets bs). s < 64"
proof (induction bs rule: sextets.induct)
  case (3 a b)
  then have "a < 256" "b < 256" by simp_all
  from six_bits[OF this this(2)] show ?case by simp
next
  case (4 a b c bs)
  then have "a < 256" "b < 256" "c < 256" by simp_all
  from six_bits[OF this] 4 show ?case by simp
next
  case (2 a)
  then have "a < 256" by simp
  from six_bits[OF this this this] show ?case by simp
qed simp

lemma regroup:
  fixes a b c :: nat
  assumes "b < 256" "c < 256"
  shows "a div 4 * 4 + ((a mod 4) * 16) div 16 = a"
    "a div 4 * 4 + ((a mod 4) * 16 + b div 16) div 16 = a"
    "((a mod 4) * 16 + b div 16) mod 16 * 16 + ((b mod 16) * 4) div 4 = b"
    "((a mod 4) * 16 + b div 16) mod 16 * 16 + ((b mod 16) * 4 + c div 64) div 4 = b"
    "((b mod 16) * 4 + c div 64) mod 4 * 64 + c mod 64 = c"
proof -
  have 2: "b div 16 < 16" "c div 64 < 4" using assms by (simp_all add: less_mult_imp_div_less)
  show "a div 4 * 4 + ((a mod 4) * 16) div 16 = a" by simp
  have x: "((a mod 4) * 16 + b div 16) div 16 = a mod 4" using 2 by simp
  show "a div 4 * 4 + ((a mod 4) * 16 + b div 16) div 16 = a" unfolding x by simp
  have y: "((a mod 4) * 16 + b div 16) mod 16 = b div 16" using 2 by simp
  show "((a mod 4) * 16 + b div 16) mod 16 * 16 + ((b mod 16) * 4) div 4 = b" unfolding y by simp
  have z: "((b mod 16) * 4 + c div 64) div 4 = b mod 16" using 2 by simp
  show "((a mod 4) * 16 + b div 16) mod 16 * 16 + ((b mod 16) * 4 + c div 64) div 4 = b"
    unfolding y z by simp
  have w: "((b mod 16) * 4 + c div 64) mod 4 = c div 64" using 2 by simp
  show "((b mod 16) * 4 + c div 64) mod 4 * 64 + c mod 64 = c" unfolding w by simp
qed

lemma decode_sextets_sextets: "\<forall>b \<in> set bs. b < 256 \<Longrightarrow> decode_sextets (sextets bs) = bs"
proof (induction bs rule: sextets.induct)
  case (3 a b)
  then have "b < 256" by simp
  from regroup[OF this this] show ?case by simp
next
  case (4 a b c bs)
  then have "b < 256" "c < 256" by simp_all
  from regroup[OF this] 4 show ?case by simp
qed simp_all


lemma encode_bytes_length: "length (encode_bytes bs) mod 4 = 0"
  by (induction bs rule: encode_bytes.induct) simp_all

lemma pad_not_ws: "\<not> is_ascii_ws (CHR ''='')"
  by (simp add: is_ascii_ws_def)

lemma encode_bytes_no_ws:
  "\<forall>b \<in> set bs. b < 256 \<Longrightarrow> filter (\<lambda>c. \<not> is_ascii_ws c) (encode_bytes bs) = encode_bytes bs"
proof (induction bs rule: encode_bytes.induct)
  case (2 a)
  then have "a < 256" by simp
  from six_bits[OF this this this] show ?case by (simp add: b64_facts pad_not_ws)
next
  case (3 a b)
  then have "a < 256" "b < 256" by simp_all
  from six_bits[OF this this(2)] show ?case by (simp add: b64_facts pad_not_ws)
next
  case (4 a b c bs)
  then have "a < 256" "b < 256" "c < 256" by simp_all
  from six_bits[OF this] 4 show ?case by (simp add: b64_facts)
qed simp

lemma strip_padding_append:
  assumes "length xs mod 4 = 0" "length ys mod 4 = 0" "ys \<noteq> []"
  shows "strip_padding (xs @ ys) = xs @ strip_padding ys"
proof -
  have "length ys \<noteq> 0" using assms(3) by simp
  then have "4 \<le> length ys" using assms(2) by presburger
  then obtain e1 e2 r where r: "rev ys = e1 # e2 # r"
    by (cases "rev ys"; cases "tl (rev ys)") (auto simp: length_Suc_conv dest: arg_cong[where f=length])
  have l: "length (xs @ ys) mod 4 = 0" using assms(1,2) by (simp add: mod_add_eq[symmetric] mod_eq_0_iff_dvd)
  have ys: "ys = rev r @ [e2, e1]" using r by (metis append.assoc append_Cons append_Nil rev.simps(2) rev_rev_ident)
  show ?thesis unfolding strip_padding_def using l assms(2) by (simp add: ys)
qed

lemma strip_padding_encode:
  "\<forall>b \<in> set bs. b < 256 \<Longrightarrow> strip_padding (encode_bytes bs) = map enc6 (sextets bs)"
proof (induction bs rule: encode_bytes.induct)
  case 1
  show ?case by (simp add: strip_padding_def)
next
  case (2 a)
  show ?case by (simp add: strip_padding_def)
next
  case (3 a b)
  then have "a < 256" "b < 256" by simp_all
  from six_bits[OF this this(2)] show ?case by (simp add: strip_padding_def b64_facts)
next
  case (4 a b c bs)
  then have lt: "a < 256" "b < 256" "c < 256" and IH: "strip_padding (encode_bytes bs) = map enc6 (sextets bs)"
    by simp_all
  show ?case
  proof (cases "encode_bytes bs = []")
    case True
    then have "bs = []" by (cases bs rule: encode_bytes.cases) simp_all
    then show ?thesis using six_bits[OF lt] by (simp add: strip_padding_def b64_facts)
  next
    case False
    have "strip_padding ([enc6 (a div 4), enc6 ((a mod 4) * 16 + b div 16),
             enc6 ((b mod 16) * 4 + c div 64), enc6 (c mod 64)] @ encode_bytes bs) =
          [enc6 (a div 4), enc6 ((a mod 4) * 16 + b div 16),
             enc6 ((b mod 16) * 4 + c div 64), enc6 (c mod 64)] @ strip_padding (encode_bytes bs)"
      by (rule strip_padding_append) (simp_all add: encode_bytes_length False)
    then show ?thesis using IH by simp
  qed
qed

lemma those_opt_dec6: "\<forall>s \<in> set ss. s < 64 \<Longrightarrow> those_opt (map (dec6 \<circ> enc6) ss) = Some ss"
  by (induction ss) (simp_all add: b64_facts)

lemma sextets_length: "length (sextets bs) mod 4 \<noteq> Suc 0"
  by (induction bs rule: sextets.induct) simp_all

lemma atob_btoa: "atob (btoa s) = Some s"
proof -
  define bs where "bs = map (of_char :: char \<Rightarrow> nat) s"
  have lt: "\<forall>b \<in> set bs. b < 256" by (auto simp: bs_def)
  have "map char_of bs = s" by (simp add: bs_def comp_def)
  then show ?thesis
    unfolding atob_def btoa_def bs_def[symmetric] Let_def
    by (simp add: encode_bytes_no_ws[OF lt] strip_padding_encode[OF lt] sextets_length
        those_opt_dec6[OF sextets_lt[OF lt]] decode_sextets_sextets[OF lt])
qed

subsection \<open>\<open>JSON.parse\<close> undoes \<open>JSON.stringify\<close> on the payload\<close>

lemma hex_val_hex_digit: "d < 16 \<Longrightarrow> hex_val (hex_digit d) = Some d"
  by (auto simp: hex_val_def hex_digit_def Let_def)

lemma consing_Some [simp]: "consing c (Some (t, rest)) = Some (c # t, rest)"
  by (simp add: consing_def)

lemma string_body_plain:
  "c \<noteq> dquote \<Longrightarrow> c \<noteq> backslash \<Longrightarrow> \<not> (of_char c :: nat) < 32 \<Longrightarrow>
   string_body (c # X) = consing c (string_body X)"
  by simp

lemma string_body_escape:
  "unescape e = Some ch \<Longrightarrow> e \<noteq> CHR ''u'' \<Longrightarrow> string_body (backslash # e # X) = consing ch (string_body X)"
  by (simp add: backslash_def dquote_def)

lemma string_body_u00:
  "a < 16 \<Longrightarrow> b < 16 \<Longrightarrow>
   string_body (backslash # CHR ''u'' # CHR ''0'' # CHR ''0'' # hex_digit a # hex_digit b # X) =
     consing (char_of (a * 16 + b)) (string_body X)"
proof -
  assume a: "a < 16" and b: "b < 16"
  have z: "hex_val (CHR ''0'') = Some 0" by (simp add: hex_val_def)
  have lt: "a * 16 + b < 256" using a b by linarith
  show ?thesis
    by (simp add: backslash_def dquote_def z hex_val_hex_digit[OF a] hex_val_hex_digit[OF b] lt)
qed


lemma char_eq_of_code: "(of_char c :: nat) = of_char d \<Longrightarrow> c = d"
  by (rule of_char_eqI)

lemma string_body_quote_char: "string_body (quote_char c @ X) = consing c (string_body X)"
proof -
  consider (dq) "c = dquote" | (bs) "c = backslash"
    | (b) "(of_char c :: nat) = 8" | (t) "(of_char c :: nat) = 9" | (n) "(of_char c :: nat) = 10"
    | (f) "(of_char c :: nat) = 12" | (r) "(of_char c :: nat) = 13"
    | (u) "c \<noteq> dquote" "c \<noteq> backslash" "(of_char c :: nat) < 32" "(of_char c :: nat) \<notin> {8, 9, 10, 12, 13}"
    | (p) "c \<noteq> dquote" "c \<noteq> backslash" "\<not> (of_char c :: nat) < 32"
    by auto
  then show ?thesis
  proof cases
    case dq
    have "unescape dquote = Some dquote" by (simp add: unescape_def)
    from string_body_escape[OF this] show ?thesis
      by (simp add: quote_char_def dq dquote_def)
  next
    case bs
    have "unescape backslash = Some backslash" by (simp add: unescape_def backslash_def dquote_def)
    from string_body_escape[OF this] show ?thesis
      by (simp add: quote_char_def bs dquote_def backslash_def)
  next
    case b
    then have c: "c = CHR 0x08" by (intro char_eq_of_code) simp
    have "unescape (CHR ''b'') = Some (CHR 0x08)" by (simp add: unescape_def backslash_def dquote_def)
    from string_body_escape[OF this] show ?thesis
      by (simp add: quote_char_def c dquote_def backslash_def)
  next
    case t
    then have c: "c = CHR 0x09" by (intro char_eq_of_code) simp
    have "unescape (CHR ''t'') = Some (CHR 0x09)" by (simp add: unescape_def backslash_def dquote_def)
    from string_body_escape[OF this] show ?thesis
      by (simp add: quote_char_def c dquote_def backslash_def)
  next
    case n
    then have c: "c = CHR 0x0A" by (intro char_eq_of_code) simp
    have "unescape (CHR ''n'') = Some (CHR 0x0A)" by (simp add: unescape_def backslash_def dquote_def)
    from string_body_escape[OF this] show ?thesis
      by (simp add: quote_char_def c dquote_def backslash_def)
  next
    case f
    then have c: "c = CHR 0x0C" by (intro char_eq_of_code) simp
    have "unescape (CHR ''f'') = Some (CHR 0x0C)" by (simp add: unescape_def backslash_def dquote_def)
    from string_body_escape[OF this] show ?thesis
      by (simp add: quote_char_def c dquote_def backslash_def)
  next
    case r
    then have c: "c = CHR 0x0D" by (intro char_eq_of_code) simp
    have "unescape (CHR ''r'') = Some (CHR 0x0D)" by (simp add: unescape_def backslash_def dquote_def)
    from string_body_escape[OF this] show ?thesis
      by (simp add: quote_char_def c dquote_def backslash_def)
  next
    case u
    define k where "k = (of_char c :: nat)"
    have q: "quote_char c = [backslash, CHR ''u'', CHR ''0'', CHR ''0'', hex_digit (k div 16), hex_digit (k mod 16)]"
      using u by (simp add: quote_char_def k_def Let_def)
    have lt: "k div 16 < 16" "k mod 16 < 16" using u(3) by (simp_all add: k_def less_mult_imp_div_less)
    have "char_of (k div 16 * 16 + k mod 16) = c" by (simp add: k_def)
    with string_body_u00[OF lt] show ?thesis by (simp add: q)
  next
    case p
    then have "quote_char c = [c]" by (auto simp: quote_char_def Let_def)
    with string_body_plain[OF p] show ?thesis by simp
  qed
qed

lemma string_body_quoted:
  "string_body (concat (map quote_char s) @ dquote # rest) = Some (s, rest)"
  by (induction s) (simp_all add: string_body_quote_char)


lemma of_char_digit_char: "d < 10 \<Longrightarrow> (of_char (digit_char d) :: nat) = 48 + d"
  by (simp add: digit_char_def)

lemma is_digit_digit_char: "d < 10 \<Longrightarrow> is_digit (digit_char d)"
  by (simp add: is_digit_def of_char_digit_char)

lemma digit_val_digit_char: "d < 10 \<Longrightarrow> digit_val (digit_char d) = d"
  by (simp add: digit_val_def of_char_digit_char)

lemma nat_of_digits_nil: "nat_of_digits [] = 0"
  by (simp add: nat_of_digits_def)

lemma nat_of_digits_snoc: "nat_of_digits (ds @ [c]) = 10 * nat_of_digits ds + digit_val c"
  by (simp add: nat_of_digits_def)

lemma String_nat_facts:
  "String_nat n \<noteq> [] \<and> (\<forall>c \<in> set (String_nat n). is_digit c) \<and> nat_of_digits (String_nat n) = n
   \<and> (0 < n \<longrightarrow> hd (String_nat n) \<noteq> CHR ''0'') \<and> (n = 0 \<longrightarrow> String_nat n = ''0'')"
proof (induction n rule: String_nat.induct)
  case (1 n)
  show ?case
  proof (cases "n < 10")
    case True
    have "0 < n \<Longrightarrow> digit_char n \<noteq> CHR ''0''"
    proof
      assume "0 < n" "digit_char n = CHR ''0''"
      then have "(of_char (digit_char n) :: nat) = 48" by simp
      then show False using True \<open>0 < n\<close> by (simp add: of_char_digit_char)
    qed
    moreover have "digit_char 0 = CHR ''0''" by (rule of_char_eqI[where 'a=nat]) (simp add: of_char_digit_char)
    ultimately show ?thesis using True
      by (auto simp: String_nat_small is_digit_digit_char digit_val_digit_char nat_of_digits_def)
  next
    case False
    then have IH: "String_nat (n div 10) \<noteq> []" "\<forall>c \<in> set (String_nat (n div 10)). is_digit c"
      "nat_of_digits (String_nat (n div 10)) = n div 10" "hd (String_nat (n div 10)) \<noteq> CHR ''0''"
      using 1 by simp_all
    have big: "String_nat n = String_nat (n div 10) @ [digit_char (n mod 10)]"
      using False by (simp add: String_nat_big)
    show ?thesis using False IH
      by (simp add: big nat_of_digits_snoc is_digit_digit_char digit_val_digit_char)
  qed
qed

lemma takeWhile_digits:
  "\<forall>c \<in> set ds. is_digit c \<Longrightarrow> \<not> is_digit c' \<Longrightarrow>
   takeWhile is_digit (ds @ c' # rest) = ds \<and> dropWhile is_digit (ds @ c' # rest) = c' # rest"
  by (induction ds) simp_all

lemma not_digit: "\<not> is_digit (CHR '','')" "\<not> is_digit (CHR ''}'')" "\<not> is_digit (CHR ''-'')"
  "\<not> is_digit dquote" "\<not> is_digit (CHR ''t'')" "\<not> is_digit (CHR ''f'')" "\<not> is_digit (CHR ''n'')"
  by (simp_all add: is_digit_def dquote_def)

lemma not_ws_digit: "is_digit c \<Longrightarrow> \<not> is_ws c"
  by (auto simp: is_digit_def is_ws_def)

lemma parse_number_String_nat:
  assumes "c = CHR '','' \<or> c = CHR ''}''"
  shows "parse_number (String_nat n @ c # rest) = Some (real n, c # rest)"
proof -
  from String_nat_facts[of n] obtain d ds where ds: "String_nat n = d # ds" and dig: "\<forall>x \<in> set (String_nat n). is_digit x"
    and val: "nat_of_digits (String_nat n) = n" and lead: "0 < n \<longrightarrow> hd (String_nat n) \<noteq> CHR ''0''"
    and zero: "n = 0 \<longrightarrow> String_nat n = ''0''"
    by (cases "String_nat n") auto
  have d: "is_digit d" using dig ds by simp
  then have nd: "d \<noteq> CHR ''-''" using not_digit by auto
  have ndc: "\<not> is_digit c" using assms not_digit by auto
  have tw: "takeWhile is_digit (String_nat n @ c # rest) = String_nat n"
    "dropWhile is_digit (String_nat n @ c # rest) = c # rest"
    using takeWhile_digits[OF dig ndc] by simp_all
  have nolead: "\<not> (hd (String_nat n) = CHR ''0'' \<and> 1 < length (String_nat n))"
    using lead zero by (cases "n = 0") auto
  have ne: "String_nat n \<noteq> []" using ds by simp
  have fr: "frac_part (c # rest) = Some ([], c # rest)" using assms by (auto simp: frac_part_def)
  have ex: "exp_part (c # rest) = Some (0, c # rest)" using assms by (auto simp: exp_part_def)
  have neg: "(case String_nat n @ c # rest of [] \<Rightarrow> False | x # r \<Rightarrow> x = CHR ''-'') = False"
    using nd by (simp add: ds)
  show ?thesis
    unfolding parse_number_def neg Let_def
    using nolead ne by (simp add: tw fr ex val pow10_def nat_of_digits_nil)
qed

lemma parse_scalar_String_nat:
  assumes "c = CHR '','' \<or> c = CHR ''}''"
  shows "parse_scalar (String_nat n @ c # rest) = Some (JNum (Fin (real n)), c # rest)"
proof -
  from String_nat_facts[of n] obtain d ds where ds: "String_nat n = d # ds" and dig: "is_digit d"
    by (cases "String_nat n") auto
  have nd: "d \<noteq> dquote" "d \<noteq> CHR ''t''" "d \<noteq> CHR ''f''" "d \<noteq> CHR ''n''" using dig not_digit by auto
  have "parse_scalar (d # ds @ c # rest) =
        (case parse_number (d # ds @ c # rest) of None \<Rightarrow> None | Some (x, r) \<Rightarrow> Some (JNum (Fin x), r))"
    using nd by (simp add: parse_scalar_def)
  then show ?thesis using parse_number_String_nat[OF assms, of n rest] by (simp add: ds)
qed

lemma parse_scalar_string:
  "parse_scalar (QuoteJSONString s @ rest) = Some (JStr s, rest)"
  by (simp add: parse_scalar_def QuoteJSONString_def string_body_quoted)

lemma skip_ws_String_nat: "skip_ws (String_nat n @ rest) = String_nat n @ rest"
proof -
  from String_nat_facts[of n] obtain d ds where ds: "String_nat n = d # ds" and dig: "is_digit d"
    by (cases "String_nat n") auto
  then show ?thesis by (simp add: skip_ws_def not_ws_digit)
qed

lemma skip_ws_plain [simp]: "\<not> is_ws c \<Longrightarrow> skip_ws (c # r) = c # r"
  by (simp add: skip_ws_def)

lemma not_ws [simp]: "\<not> is_ws dquote" "\<not> is_ws (CHR '':'')" "\<not> is_ws (CHR '','')" "\<not> is_ws (CHR ''}'')"
   "\<not> is_ws (CHR ''{'')"
  by (simp_all add: is_ws_def dquote_def)


lemma Quote_cons: "QuoteJSONString k @ rest = dquote # (concat (map quote_char k) @ dquote # rest)"
  by (simp add: QuoteJSONString_def)

lemma skip_ws_Quote: "skip_ws (QuoteJSONString s @ rest) = QuoteJSONString s @ rest"
  by (simp add: Quote_cons)

lemma step_str_comma:
  "parse_members (Suc n) (QuoteJSONString k @ CHR '':'' # QuoteJSONString s @ CHR '','' # rest) =
     (case parse_members n rest of None \<Rightarrow> None | Some (ms, r) \<Rightarrow> Some ((k, JStr s) # ms, r))"
  by (simp add: Quote_cons[of k] string_body_quoted skip_ws_Quote parse_scalar_string)

lemma step_num_comma:
  "parse_members (Suc n) (QuoteJSONString k @ CHR '':'' # String_nat v @ CHR '','' # rest) =
     (case parse_members n rest of None \<Rightarrow> None | Some (ms, r) \<Rightarrow> Some ((k, JNum (Fin (real v))) # ms, r))"
  by (simp add: Quote_cons[of k] string_body_quoted skip_ws_String_nat parse_scalar_String_nat)

lemma step_num_end:
  "parse_members (Suc n) (QuoteJSONString k @ CHR '':'' # String_nat v @ CHR ''}'' # rest) =
     Some ([(k, JNum (Fin (real v)))], rest)"
  by (simp add: Quote_cons[of k] string_body_quoted skip_ws_String_nat parse_scalar_String_nat)

lemma payload_text_parse:
  "JSON_parse (''{'' @ QuoteJSONString ''d'' @ '':'' @ QuoteJSONString dateISO @ '','' @
                QuoteJSONString ''h'' @ '':'' @ String_nat h @ '','' @
                QuoteJSONString ''c'' @ '':'' @ String_nat c @ '','' @
                QuoteJSONString ''w'' @ '':'' @ String_nat w @ '','' @
                QuoteJSONString ''r'' @ '':'' @ String_nat r @ ''}'') =
     Some (Object [(''d'', JStr dateISO), (''h'', JNum (Fin (real h))), (''c'', JNum (Fin (real c))),
                   (''w'', JNum (Fin (real w))), (''r'', JNum (Fin (real r)))])"
proof -
  define body where "body = QuoteJSONString ''d'' @ CHR '':'' # QuoteJSONString dateISO @ CHR '','' #
                QuoteJSONString ''h'' @ CHR '':'' # String_nat h @ CHR '','' #
                QuoteJSONString ''c'' @ CHR '':'' # String_nat c @ CHR '','' #
                QuoteJSONString ''w'' @ CHR '':'' # String_nat w @ CHR '','' #
                QuoteJSONString ''r'' @ CHR '':'' # String_nat r @ CHR ''}'' # []"
  have len: "5 \<le> length body" by (simp add: body_def QuoteJSONString_def)
  then obtain m where m: "length body = Suc (Suc (Suc (Suc (Suc m))))"
    by (metis add_Suc_right add_Suc_shift le_Suc_ex numeral_eq_Suc pred_numeral_simps(2,3) semiring_norm(26,27))
  have pm: "parse_members (length body) body =
     Some ([(''d'', JStr dateISO), (''h'', JNum (Fin (real h))), (''c'', JNum (Fin (real c))),
            (''w'', JNum (Fin (real w))), (''r'', JNum (Fin (real r)))], [])"
    unfolding m unfolding body_def
    by (simp only: step_str_comma step_num_comma step_num_end option.case prod.case)
  obtain t where t: "body = dquote # t"
    by (simp add: body_def Quote_cons[of "''d''"])
  have "JSON_parse (CHR ''{'' # body) = Some (Object [(''d'', JStr dateISO), (''h'', JNum (Fin (real h))), (''c'', JNum (Fin (real c))),
                   (''w'', JNum (Fin (real w))), (''r'', JNum (Fin (real r)))])"
    unfolding JSON_parse_def
    using pm by (simp add: t dquote_def skip_ws_def is_ws_def)
  then show ?thesis by (simp add: body_def)
qed

subsection \<open>The round trip\<close>

lemma stringify_number_nat: "n \<le> 100 \<Longrightarrow> stringify_number (Fin (real n)) = Some (String_nat n)"
proof -
  assume n: "n \<le> 100"
  have "real n < 10 ^ 21"
  proof -
    have "real n \<le> 100" using n by simp
    also have "(100::real) < 10 ^ 21" by simp
    finally show ?thesis .
  qed
  then show ?thesis by (simp add: stringify_number_def String_int_def)
qed

lemma share_payload_text:
  assumes "center (heat (indices r)) = Fin (real h)" "h \<le> 100"
    and "center (cold (indices r)) = Fin (real c)" "c \<le> 100"
    and "center (wind (indices r)) = Fin (real w)" "w \<le> 100"
    and "center (wet (indices r)) = Fin (real t)" "t \<le> 100"
  shows "JSON_stringify (share_payload dateISO r) =
     Some (''{'' @ QuoteJSONString ''d'' @ '':'' @ QuoteJSONString dateISO @ '','' @
                QuoteJSONString ''h'' @ '':'' @ String_nat h @ '','' @
                QuoteJSONString ''c'' @ '':'' @ String_nat c @ '','' @
                QuoteJSONString ''w'' @ '':'' @ String_nat w @ '','' @
                QuoteJSONString ''r'' @ '':'' @ String_nat t @ ''}'')"
  using assms by (simp add: JSON_stringify_def share_payload_def stringify_number_nat)

lemma indexOf_marker: "indexOf (marker @ enc) marker = Some 0"
  by (simp add: marker_def)

lemma shared_index_num:
  "shared_index (JNum (Fin x)) =
     \<lparr> center = JNum (Fin x), low = Fin (max 0 (x - 10)), high = Fin (min 100 (x + 10)) \<rparr>"
  by (simp add: shared_index_def ToNumber_def js_plus_10_def)

lemma parseHash_shareRisk:
  assumes "center (heat (indices r)) = Fin (real h)" "h \<le> 100"
    and "center (cold (indices r)) = Fin (real c)" "c \<le> 100"
    and "center (wind (indices r)) = Fin (real w)" "w \<le> 100"
    and "center (wet (indices r)) = Fin (real t)" "t \<le> 100"
  shows "\<exists>link. shareRisk dateISO r = Some link \<and>
     parseHash link = Some
       \<lparr> setRiskResult =
           \<lparr> source = ''shared'', date = JStr dateISO,
             indices =
               \<lparr> heat = \<lparr> center = JNum (Fin (real h)), low = Fin (max 0 (real h - 10)), high = Fin (min 100 (real h + 10)) \<rparr>,
                 cold = \<lparr> center = JNum (Fin (real c)), low = Fin (max 0 (real c - 10)), high = Fin (min 100 (real c + 10)) \<rparr>,
                 wind = \<lparr> center = JNum (Fin (real w)), low = Fin (max 0 (real w - 10)), high = Fin (min 100 (real w + 10)) \<rparr>,
                 wet = \<lparr> center = JNum (Fin (real t)), low = Fin (max 0 (real t - 10)), high = Fin (min 100 (real t + 10)) \<rparr> \<rparr> \<rparr>,
         setDateISO = (if dateISO = [] then None else Some (JStr dateISO)) \<rparr>"
proof -
  define js where "js = ''{'' @ QuoteJSONString ''d'' @ '':'' @ QuoteJSONString dateISO @ '','' @
                QuoteJSONString ''h'' @ '':'' @ String_nat h @ '','' @
                QuoteJSONString ''c'' @ '':'' @ String_nat c @ '','' @
                QuoteJSONString ''w'' @ '':'' @ String_nat w @ '','' @
                QuoteJSONString ''r'' @ '':'' @ String_nat t @ ''}''"
  have s: "shareRisk dateISO r = Some (marker @ btoa js)"
    using share_payload_text[OF assms, of dateISO] by (simp add: shareRisk_def js_def)
  have p: "JSON_parse js =
     Some (Object [(''d'', JStr dateISO), (''h'', JNum (Fin (real h))), (''c'', JNum (Fin (real c))),
                   (''w'', JNum (Fin (real w))), (''r'', JNum (Fin (real t)))])"
    unfolding js_def by (rule payload_text_parse)
  have "parseHash (marker @ btoa js) = Some
       \<lparr> setRiskResult =
           \<lparr> source = ''shared'', date = JStr dateISO,
             indices =
               \<lparr> heat = \<lparr> center = JNum (Fin (real h)), low = Fin (max 0 (real h - 10)), high = Fin (min 100 (real h + 10)) \<rparr>,
                 cold = \<lparr> center = JNum (Fin (real c)), low = Fin (max 0 (real c - 10)), high = Fin (min 100 (real c + 10)) \<rparr>,
                 wind = \<lparr> center = JNum (Fin (real w)), low = Fin (max 0 (real w - 10)), high = Fin (min 100 (real w + 10)) \<rparr>,
                 wet = \<lparr> center = JNum (Fin (real t)), low = Fin (max 0 (real t - 10)), high = Fin (min 100 (real t + 10)) \<rparr> \<rparr> \<rparr>,
         setDateISO = (if dateISO = [] then None else Some (JStr dateISO)) \<rparr>"
    unfolding parseHash_def
    by (simp add: indexOf_marker atob_btoa p get_prop_def shared_index_num)
  with s show ?thesis by blast
qed

text \<open>
  Claim C3. For every result whose four centres are integers between 0 and 100 and every
  date string, \<open>shareRisk\<close> produces a link, and \<open>parseHash\<close> on that link stores the same
  date and the same four centres, with the bands rebuilt as centre minus ten and centre
  plus ten, clamped to 0 and 100, whatever the bands of the original were.
\<close>

theorem share_round_trip:
  assumes "center (heat (indices r)) = Fin (of_int h)" "0 \<le> h" "h \<le> 100"
    and "center (cold (indices r)) = Fin (of_int c)" "0 \<le> c" "c \<le> 100"
    and "center (wind (indices r)) = Fin (of_int w)" "0 \<le> w" "w \<le> 100"
    and "center (wet (indices r)) = Fin (of_int t)" "0 \<le> t" "t \<le> 100"
  shows "\<exists>link eff. shareRisk dateISO r = Some link \<and> parseHash link = Some eff \<and>
     date (setRiskResult eff) = JStr dateISO \<and>
     heat (indices (setRiskResult eff)) =
       \<lparr> center = JNum (Fin (of_int h)), low = Fin (max 0 (of_int h - 10)),
         high = Fin (min 100 (of_int h + 10)) \<rparr> \<and>
     cold (indices (setRiskResult eff)) =
       \<lparr> center = JNum (Fin (of_int c)), low = Fin (max 0 (of_int c - 10)),
         high = Fin (min 100 (of_int c + 10)) \<rparr> \<and>
     wind (indices (setRiskResult eff)) =
       \<lparr> center = JNum (Fin (of_int w)), low = Fin (max 0 (of_int w - 10)),
         high = Fin (min 100 (of_int w + 10)) \<rparr> \<and>
     wet (indices (setRiskResult eff)) =
       \<lparr> center = JNum (Fin (of_int t)), low = Fin (max 0 (of_int t - 10)),
         high = Fin (min 100 (of_int t + 10)) \<rparr>"
proof -
  have n: "real (nat h) = of_int h" "real (nat c) = of_int c" "real (nat w) = of_int w"
    "real (nat t) = of_int t"
    using assms by simp_all
  have b: "nat h \<le> 100" "nat c \<le> 100" "nat w \<le> 100" "nat t \<le> 100"
    using assms by simp_all
  from parseHash_shareRisk[of r "nat h" "nat c" "nat w" "nat t" dateISO] assms(1,4,7,10) b
  obtain link where "shareRisk dateISO r = Some link" and
    "parseHash link = Some
       \<lparr> setRiskResult =
           \<lparr> source = ''shared'', date = JStr dateISO,
             indices =
               \<lparr> heat = \<lparr> center = JNum (Fin (of_int h)), low = Fin (max 0 (of_int h - 10)), high = Fin (min 100 (of_int h + 10)) \<rparr>,
                 cold = \<lparr> center = JNum (Fin (of_int c)), low = Fin (max 0 (of_int c - 10)), high = Fin (min 100 (of_int c + 10)) \<rparr>,
                 wind = \<lparr> center = JNum (Fin (of_int w)), low = Fin (max 0 (of_int w - 10)), high = Fin (min 100 (of_int w + 10)) \<rparr>,
                 wet = \<lparr> center = JNum (Fin (of_int t)), low = Fin (max 0 (of_int t - 10)), high = Fin (min 100 (of_int t + 10)) \<rparr> \<rparr> \<rparr>,
         setDateISO = (if dateISO = [] then None else Some (JStr dateISO)) \<rparr>"
    unfolding n by blast
  then show ?thesis by simp
qed

theorem share_round_trip_witness:
  "\<exists>link eff. shareRisk ''2025-10-17'' result_42 = Some link \<and> parseHash link = Some eff \<and>
     date (setRiskResult eff) = JStr ''2025-10-17'' \<and>
     heat (indices (setRiskResult eff)) = \<lparr> center = JNum (Fin 42), low = Fin 32, high = Fin 52 \<rparr> \<and>
     cold (indices (setRiskResult eff)) = \<lparr> center = JNum (Fin 0), low = Fin 0, high = Fin 10 \<rparr> \<and>
     wind (indices (setRiskResult eff)) = \<lparr> center = JNum (Fin 100), low = Fin 90, high = Fin 100 \<rparr> \<and>
     wet (indices (setRiskResult eff)) = \<lparr> center = JNum (Fin 7), low = Fin 0, high = Fin 17 \<rparr>"
  using share_round_trip[of result_42 42 0 100 7 "''2025-10-17''"]
  by (simp add: result_42_def)

subsection \<open>The decoder\<close>







end
